theory Spec2Isabelle
  imports Complex_Main
begin

section \<open>The scraping pipeline of the IMDb scraper: proxy pool, detection scan, downloader\<close>

text \<open>
  The theory embeds four classes of \<^verbatim>\<open>backend/app/services/scraping\<close>:
  \<^verbatim>\<open>ProxyManager\<close>, \<^verbatim>\<open>AntiDetection\<close>, \<^verbatim>\<open>MediaDownloader\<close> and \<^verbatim>\<open>IMDbScraper\<close>,
  together with the part of \<^verbatim>\<open>StorageService\<close> the downloader calls.

  Conventions of the embedding.
  \<^item> Python \<^verbatim>\<open>int\<close> is \<^typ>\<open>int\<close>. A Python \<^verbatim>\<open>float\<close> is the rational number it
    denotes, a \<^typ>\<open>rat\<close>. In \<^verbatim>\<open>ProxyManager\<close>, where scores are compared with one
    another, every float operation is the exact operation followed by the rounding
    \<open>round_double\<close> to the nearest double. The confidence of the detection scan, a
    single product that is compared with no other float, is computed exactly.
  \<^item> A method that mutates \<^verbatim>\<open>self\<close> takes the object and returns the updated object
    next to its result.
  \<^item> A \<^verbatim>\<open>ProxyInfo\<close> object lives in the list \<^verbatim>\<open>self.proxies\<close>; a reference to it is
    its position in that list, so that a mutation through the reference is a list
    update and two references are the same object exactly when the positions agree.
  \<^item> An exception is a value of \<open>exn\<close>; a call that may raise returns \<open>exn + 'a\<close>.
  \<^item> What the outside world answers (HTTP responses, the clock, the rendered page) is
    an explicit argument.
\<close>

subsection \<open>Exceptions and strings\<close>

text \<open>
  The exceptions the modelled code raises or receives from its libraries. \<open>str_exn\<close>
  is Python's \<^verbatim>\<open>str(e)\<close>; for \<^verbatim>\<open>aiohttp.ClientResponseError\<close> it is abridged to the
  status.
\<close>

datatype exn =
    ValueError string
  | TypeError string
  | ClientResponseError int
  | ClientError string
  | PlaywrightError string
  | OSError string

text \<open>Decimal digits of a natural number and of an integer, as an f-string prints them.\<close>

definition digit_char :: "nat \<Rightarrow> char" where
  "digit_char n = ''0123456789'' ! n"

function str_nat :: "nat \<Rightarrow> string" where
  "str_nat n = (if n < 10 then [digit_char n] else str_nat (n div 10) @ [digit_char (n mod 10)])"
  by pat_completeness auto
termination
  by (relation "measure id") auto

definition str_int :: "int \<Rightarrow> string" where
  "str_int i = (if i < 0 then CHR ''-'' # str_nat (nat (- i)) else str_nat (nat i))"

fun str_exn :: "exn \<Rightarrow> string" where
  "str_exn (ValueError m) = m"
| "str_exn (TypeError m) = m"
| "str_exn (ClientResponseError status) = str_int status"
| "str_exn (ClientError m) = m"
| "str_exn (PlaywrightError m) = m"
| "str_exn (OSError m) = m"

text \<open>
  \<^verbatim>\<open>s.lower()\<close> on ASCII letters, and the substring test \<^verbatim>\<open>needle in haystack\<close>.
\<close>

definition lower_char :: "char \<Rightarrow> char" where
  "lower_char c =
     (case map_of (zip ''ABCDEFGHIJKLMNOPQRSTUVWXYZ'' ''abcdefghijklmnopqrstuvwxyz'') c of
        Some l \<Rightarrow> l
      | None \<Rightarrow> c)"

definition lower :: "string \<Rightarrow> string" where
  "lower s = map lower_char s"

fun starts_with :: "string \<Rightarrow> string \<Rightarrow> bool" where
  "starts_with [] ys = True"
| "starts_with (x # xs) [] = False"
| "starts_with (x # xs) (y # ys) = (x = y \<and> starts_with xs ys)"

fun contains :: "string \<Rightarrow> string \<Rightarrow> bool" where
  "contains needle [] = (needle = [])"
| "contains needle (y # ys) = (starts_with needle (y # ys) \<or> contains needle ys)"

subsection \<open>Float arithmetic\<close>

text \<open>
  A Python \<^verbatim>\<open>float\<close> is an IEEE 754 double, and the result of an arithmetic
  operation is the exact result rounded to the nearest double, a tie going to the
  even significand. \<open>binade fuel a 0\<close> is the exponent \<open>e\<close> with
  \<open>2 ^ e \<le> a < 2 ^ (e + 1)\<close>, found by doubling or halving \<open>a\<close>; the doubles of this
  binade are the multiples of \<open>2 ^ (e - 52)\<close>, and below \<open>2 ^ - 1022\<close> (the subnormal
  range) the multiples of \<open>2 ^ - 1074\<close>. A result beyond the largest double, where the
  machine yields an infinity, is not modelled.
\<close>

primrec binade :: "nat \<Rightarrow> rat \<Rightarrow> int \<Rightarrow> int" where
  "binade 0 a e = e"
| "binade (Suc fuel) a e =
     (if a < 1 then binade fuel (2 * a) (e - 1)
      else if 2 \<le> a then binade fuel (a / 2) (e + 1)
      else e)"

definition pow2 :: "int \<Rightarrow> rat" where
  "pow2 e = (if 0 \<le> e then 2 ^ nat e else 1 / 2 ^ nat (- e))"

definition round_half_even :: "rat \<Rightarrow> int" where
  "round_half_even m =
     (let n = \<lfloor>m\<rfloor>; r = m - of_int n in
      if r < 1 / 2 then n else if 1 / 2 < r then n + 1 else if even n then n else n + 1)"

definition round_double :: "rat \<Rightarrow> rat" where
  "round_double x =
     (if x = 0 then 0
      else
        let a = \<bar>x\<bar>;
            e = max (binade 2200 a 0) (- 1022);
            ulp = pow2 (e - 52)
        in sgn x * of_int (round_half_even (a / ulp)) * ulp)"

subsection \<open>ProxyManager\<close>

record ProxyInfo =
  host :: string
  port :: int
  username :: "string option"
  password :: "string option"
  protocol :: string
  last_used :: "string option"
  success_count :: int
  failure_count :: int
  avg_response_time :: rat
  is_working :: bool
  country :: "string option"
  isp :: "string option"

text \<open>
  \<^verbatim>\<open>current_proxy_index\<close> starts at 0 and is only ever assigned 0 or a remainder
  modulo a positive length, hence a natural number.
\<close>

record ProxyManager =
  proxies :: "ProxyInfo list"
  current_proxy_index :: nat
  rotation_enabled :: bool

definition new_proxy_manager :: ProxyManager where
  "new_proxy_manager = \<lparr>proxies = [], current_proxy_index = 0, rotation_enabled = True\<rparr>"

definition add_proxy ::
  "ProxyManager \<Rightarrow> string \<Rightarrow> int \<Rightarrow> string option \<Rightarrow> string option \<Rightarrow> string \<Rightarrow> ProxyManager" where
  "add_proxy pm h p u pw proto =
     pm\<lparr>proxies := proxies pm @
       [\<lparr>host = h, port = p, username = u, password = pw, protocol = proto,
         last_used = None, success_count = 0, failure_count = 0, avg_response_time = 0,
         is_working = True, country = None, isp = None\<rparr>]\<rparr>"

text \<open>\<^verbatim>\<open>[p for p in self.proxies if p.is_working]\<close>, as references and as values.\<close>

definition working_refs :: "ProxyInfo list \<Rightarrow> nat list" where
  "working_refs ps = filter (\<lambda>i. is_working (ps ! i)) [0..<length ps]"

definition get_working_proxies :: "ProxyManager \<Rightarrow> ProxyInfo list" where
  "get_working_proxies pm = filter is_working (proxies pm)"

text \<open>
  \<^verbatim>\<open>get_current_proxy\<close>: \<open>None\<close> on an empty pool; when no proxy is working every
  proxy is re-enabled and the working list is the pool itself; an index past the
  working list is reset to 0; the result is the reference at that index.
\<close>

definition get_current_proxy :: "ProxyManager \<Rightarrow> ProxyManager \<times> nat option" where
  "get_current_proxy pm =
     (if proxies pm = [] then (pm, None)
      else
        let working_proxies = working_refs (proxies pm);
            pm1 = (if working_proxies = []
                   then pm\<lparr>proxies := map (\<lambda>p. p\<lparr>is_working := True\<rparr>) (proxies pm)\<rparr>
                   else pm);
            working_proxies1 = (if working_proxies = []
                   then [0..<length (proxies pm)] else working_proxies);
            pm2 = (if current_proxy_index pm1 \<ge> length working_proxies1
                   then pm1\<lparr>current_proxy_index := 0\<rparr> else pm1)
        in (pm2, Some (working_proxies1 ! current_proxy_index pm2)))"

definition rotate_proxy :: "ProxyManager \<Rightarrow> ProxyManager \<times> nat option" where
  "rotate_proxy pm =
     (if \<not> rotation_enabled pm \<or> length (proxies pm) \<le> 1 then get_current_proxy pm
      else
        let working_proxies = working_refs (proxies pm) in
        if length working_proxies \<le> 1 then get_current_proxy pm
        else get_current_proxy
          (pm\<lparr>current_proxy_index :=
                (current_proxy_index pm + 1) mod length working_proxies\<rparr>))"

text \<open>The proxy object a reference denotes.\<close>

definition proxy_at :: "ProxyManager \<Rightarrow> nat option \<Rightarrow> ProxyInfo option" where
  "proxy_at pm r = map_option (\<lambda>i. proxies pm ! i) r"

text \<open>
  The failure branch of \<^verbatim>\<open>validate_proxy\<close> (the request through the proxy raised):
  the counters of the proxy change, the manager's index does not.
\<close>

definition validate_proxy_failed :: "ProxyManager \<Rightarrow> nat \<Rightarrow> ProxyManager" where
  "validate_proxy_failed pm i =
     pm\<lparr>proxies := (proxies pm)
        [i := (proxies pm ! i)\<lparr>failure_count := failure_count (proxies pm ! i) + 1,
                               is_working := False\<rparr>]\<rparr>"

text \<open>
  \<^verbatim>\<open>mark_proxy_failed\<close>: the comparison \<^verbatim>\<open>proxy == self.get_current_proxy()\<close> is the
  dataclass's field-wise equality, evaluated after \<^verbatim>\<open>get_current_proxy\<close> has run
  (and possibly re-enabled the pool).
\<close>

definition mark_proxy_failed :: "ProxyManager \<Rightarrow> nat \<Rightarrow> ProxyManager" where
  "mark_proxy_failed pm i =
     (let pm1 = validate_proxy_failed pm i;
          (pm2, cur) = get_current_proxy pm1
      in if proxy_at pm2 cur = Some (proxies pm2 ! i) then fst (rotate_proxy pm2) else pm2)"

text \<open>
  \<^verbatim>\<open>mark_proxy_success\<close>; \<open>now\<close> is what \<^verbatim>\<open>datetime.utcnow()\<close> returns. The running
  average multiplies and divides a float by an \<^verbatim>\<open>int\<close>, which is converted to a float
  first.
\<close>

definition mark_proxy_success :: "ProxyManager \<Rightarrow> nat \<Rightarrow> rat option \<Rightarrow> string \<Rightarrow> ProxyManager" where
  "mark_proxy_success pm i response_time now =
     (let p = proxies pm ! i;
          p1 = p\<lparr>success_count := success_count p + 1, is_working := True, last_used := Some now\<rparr>;
          p2 = (case response_time of
                  None \<Rightarrow> p1
                | Some t \<Rightarrow>
                    if t = 0 then p1
                    else p1\<lparr>avg_response_time :=
                      round_double
                        (round_double
                           (round_double
                              (avg_response_time p1 * round_double (of_int (success_count p1 - 1)))
                            + t)
                         / round_double (of_int (success_count p1)))\<rparr>)
      in pm\<lparr>proxies := (proxies pm)[i := p2]\<rparr>)"

text \<open>
  \<^verbatim>\<open>remove_failed_proxies\<close>: \<^verbatim>\<open>list.remove\<close> deletes the first element equal to its
  argument.
\<close>

definition remove_failed_proxies :: "ProxyManager \<Rightarrow> ProxyManager \<times> nat" where
  "remove_failed_proxies pm =
     (let failed_proxies = filter (\<lambda>p. failure_count p > 10 \<and> failure_count p > success_count p * 3)
                             (proxies pm)
      in (pm\<lparr>proxies := fold remove1 failed_proxies (proxies pm)\<rparr>, length failed_proxies))"

text \<open>
  \<^verbatim>\<open>get_best_proxy\<close> with its local function \<^verbatim>\<open>calculate_score\<close>. The quotient of the
  two counters, the quotient by \<^verbatim>\<open>10.0\<close> and the difference are float operations; 0.5
  and 1.0 are doubles, and \<^verbatim>\<open>min\<close> selects one of its arguments.
\<close>

definition calculate_score :: "ProxyInfo \<Rightarrow> rat" where
  "calculate_score proxy =
     (let total_requests = success_count proxy + failure_count proxy in
      if total_requests = 0 then 1 / 2
      else
        let success_rate = round_double (of_int (success_count proxy) / of_int total_requests);
            time_penalty = min (round_double (avg_response_time proxy / 10)) 1
        in round_double (success_rate - time_penalty))"

text \<open>
  Python's \<^verbatim>\<open>max(iterable, key=f)\<close> keeps the first element whose key is maximal: a
  later element replaces the best one so far only when its key is strictly greater.
\<close>

fun py_max_key :: "('a \<Rightarrow> rat) \<Rightarrow> 'a \<Rightarrow> 'a list \<Rightarrow> 'a" where
  "py_max_key key best [] = best"
| "py_max_key key best (x # xs) =
     (if key x > key best then py_max_key key x xs else py_max_key key best xs)"

definition get_best_proxy :: "ProxyManager \<Rightarrow> ProxyInfo option" where
  "get_best_proxy pm =
     (case get_working_proxies pm of
        [] \<Rightarrow> None
      | p # ps \<Rightarrow> Some (py_max_key calculate_score p ps))"

text \<open>
  The score as the specification words it: success rate minus the capped time penalty,
  with no case for a proxy without requests, where the quotient of the counters does
  not exist.
\<close>

definition spec_score :: "ProxyInfo \<Rightarrow> rat option" where
  "spec_score proxy =
     (if success_count proxy + failure_count proxy = 0 then None
      else Some (round_double
        (round_double (of_int (success_count proxy)
                         / of_int (success_count proxy + failure_count proxy))
           - min (round_double (avg_response_time proxy / 10)) 1)))"

subsection \<open>ProxyManager: auxiliary notions and example pools\<close>

text \<open>
  The index \<^verbatim>\<open>get_current_proxy\<close> ends with: \<open>k\<close> itself when it is inside a list
  of \<open>n\<close> elements, 0 otherwise.
\<close>

definition norm_index :: "nat \<Rightarrow> nat \<Rightarrow> nat" where
  "norm_index k n = (if n \<le> k then 0 else k)"

text \<open>
  Position \<open>i\<close> holds the first maximum of \<open>key\<close> in \<open>xs\<close>: nothing in the list
  has a greater key and everything before \<open>i\<close> has a strictly smaller one.
\<close>

definition first_max_at :: "('a \<Rightarrow> rat) \<Rightarrow> 'a list \<Rightarrow> nat \<Rightarrow> bool" where
  "first_max_at key xs i \<longleftrightarrow>
     i < length xs \<and> (\<forall>x \<in> set xs. key x \<le> key (xs ! i)) \<and> (\<forall>j < i. key (xs ! j) < key (xs ! i))"

text \<open>The manager after one call of \<^verbatim>\<open>rotate_proxy()\<close>.\<close>

definition rotate :: "ProxyManager \<Rightarrow> ProxyManager" where
  "rotate pm = fst (rotate_proxy pm)"

text \<open>
  A pool built through the public methods only: four proxies are added, the manager
  rotates three times (index 3), the requests of \<^verbatim>\<open>validate_proxy\<close> through the first
  two proxies fail eleven times each, and \<^verbatim>\<open>remove_failed_proxies\<close> prunes them. Two
  working proxies remain and the index still reads 3. In \<open>mixed_manager\<close> only the
  first of the four proxies has failed, once: it stays in the pool, three proxies work
  and the index reads 3.
\<close>

definition four_proxies :: ProxyManager where
  "four_proxies =
     add_proxy (add_proxy (add_proxy (add_proxy new_proxy_manager
       ''10.0.0.1'' 8080 None None ''http'')
       ''10.0.0.2'' 8080 None None ''http'')
       ''10.0.0.3'' 8080 None None ''http'')
       ''10.0.0.4'' 8080 None None ''http''"

definition stale_manager :: ProxyManager where
  "stale_manager =
     fst (remove_failed_proxies
       (((\<lambda>pm. validate_proxy_failed pm 1) ^^ 11)
         (((\<lambda>pm. validate_proxy_failed pm 0) ^^ 11)
           ((rotate ^^ 3) four_proxies))))"


text \<open>A pool of two proxies that are both marked as failed.\<close>

definition two_failed :: ProxyManager where
  "two_failed =
     validate_proxy_failed (validate_proxy_failed
       (add_proxy (add_proxy new_proxy_manager
          ''10.0.0.1'' 8080 None None ''http'')
          ''10.0.0.2'' 8080 None None ''http'') 0) 1"

text \<open>
  A proxy that never carried a request, and one with one success (two and a half
  seconds), one failure.
\<close>

definition untested_proxy :: ProxyInfo where
  "untested_proxy =
     \<lparr>host = ''10.0.0.1'', port = 8080, username = None, password = None, protocol = ''http'',
      last_used = None, success_count = 0, failure_count = 0, avg_response_time = 0,
      is_working = True, country = None, isp = None\<rparr>"

definition tested_proxy :: ProxyInfo where
  "tested_proxy =
     \<lparr>host = ''10.0.0.2'', port = 8080, username = None, password = None, protocol = ''http'',
      last_used = Some ''2024-01-01T00:00:00'', success_count = 1, failure_count = 1,
      avg_response_time = 5 / 2, is_working = True, country = None, isp = None\<rparr>"

definition untested_first :: ProxyManager where
  "untested_first =
     \<lparr>proxies = [untested_proxy, tested_proxy], current_proxy_index = 0, rotation_enabled = True\<rparr>"

text \<open>
  Two proxies whose scores are 0.3 in exact arithmetic: three successes in ten
  requests without a measured response time, and one success in one request with an
  average of seven seconds.
\<close>

definition steady_proxy :: ProxyInfo where
  "steady_proxy =
     \<lparr>host = ''10.0.0.1'', port = 8080, username = None, password = None, protocol = ''http'',
      last_used = Some ''2024-01-01T00:00:00'', success_count = 3, failure_count = 7,
      avg_response_time = 0, is_working = True, country = None, isp = None\<rparr>"

definition slow_proxy :: ProxyInfo where
  "slow_proxy =
     \<lparr>host = ''10.0.0.2'', port = 8080, username = None, password = None, protocol = ''http'',
      last_used = Some ''2024-01-01T00:00:00'', success_count = 1, failure_count = 0,
      avg_response_time = 7, is_working = True, country = None, isp = None\<rparr>"

definition close_scores :: ProxyManager where
  "close_scores =
     \<lparr>proxies = [steady_proxy, slow_proxy], current_proxy_index = 0, rotation_enabled = True\<rparr>"

subsection \<open>AntiDetection: the scan for bot detection\<close>

text \<open>
  What a Playwright page answers to the four queries of the scan. \<^verbatim>\<open>page.content()\<close>,
  \<^verbatim>\<open>page.query_selector_all(selector)\<close> (here: the number of elements found) and
  \<^verbatim>\<open>page.title()\<close> are awaited calls that may raise; \<^verbatim>\<open>page.url\<close> is an attribute.
\<close>

record Page =
  content :: "exn + string"
  query_selector_all :: "string \<Rightarrow> exn + nat"
  title :: "exn + string"
  page_url :: string

definition bot_indicators :: "string list" where
  "bot_indicators =
     [''captcha'', ''recaptcha'', ''g-recaptcha'', ''robot'', ''access denied'',
      ''please verify'', ''unusual traffic'', ''automated queries'', ''bot detected'',
      ''verification required'']"

definition captcha_selectors :: "string list" where
  "captcha_selectors =
     [''[id*=\"captcha\"]'', ''[class*=\"captcha\"]'', ''[id*=\"recaptcha\"]'',
      ''[class*=\"recaptcha\"]'', ''iframe[src*=\"recaptcha\"]'']"

text \<open>
  The dictionary the scan returns: \<^verbatim>\<open>{detected, indicators, confidence}\<close> from the
  \<^verbatim>\<open>try\<close> block, \<^verbatim>\<open>{"detected": False, "error": str(e)}\<close> from the handler.
\<close>

datatype detection_result =
    Detection bool "string list" rat
  | DetectionError string

fun detected :: "detection_result \<Rightarrow> bool" where
  "detected (Detection d inds c) = d"
| "detected (DetectionError m) = False"


text \<open>
  The loop over \<^verbatim>\<open>captcha_selectors\<close>: the indicators collected so far, and the
  exception that ended the loop, if one did.
\<close>

fun scan_selectors ::
  "(string \<Rightarrow> exn + nat) \<Rightarrow> string list \<Rightarrow> string list \<Rightarrow> string list \<times> exn option" where
  "scan_selectors q [] inds = (inds, None)"
| "scan_selectors q (selector # rest) inds =
     (case q selector of
        Inl e \<Rightarrow> (inds, Some e)
      | Inr elements \<Rightarrow>
          scan_selectors q rest
            (if elements > 0 then inds @ [''captcha_element: '' @ selector] else inds))"

text \<open>
  The body of the \<^verbatim>\<open>try\<close> block up to the confidence computation: the list
  \<^verbatim>\<open>detection_result["indicators"]\<close> as it stands when the block is left, and the
  exception that left it, if any.
\<close>

definition scan_page :: "Page \<Rightarrow> string list \<times> exn option" where
  "scan_page page =
     (case content page of
        Inl e \<Rightarrow> ([], Some e)
      | Inr page_content \<Rightarrow>
          let page_content_lower = lower page_content;
              inds1 = filter (\<lambda>indicator. contains indicator page_content_lower) bot_indicators
          in case scan_selectors (query_selector_all page) captcha_selectors inds1 of
               (inds2, Some e) \<Rightarrow> (inds2, Some e)
             | (inds2, None) \<Rightarrow>
                 (case title page of
                    Inl e \<Rightarrow> (inds2, Some e)
                  | Inr t \<Rightarrow>
                      let url = page_url page;
                          inds3 = (if list_ex (\<lambda>indicator. contains indicator (lower t)) bot_indicators
                                   then inds2 @ [''title: '' @ t] else inds2);
                          inds4 = (if list_ex (\<lambda>indicator. contains indicator (lower url))
                                        [''captcha'', ''verify'', ''blocked'']
                                   then inds3 @ [''url: '' @ url] else inds3)
                      in (inds4, None)))"

text \<open>
  \<^verbatim>\<open>check_for_bot_detection\<close>. The float product \<^verbatim>\<open>len(indicators) * 0.3\<close> is the exact
  product with 3/10.
\<close>

definition check_for_bot_detection :: "Page \<Rightarrow> detection_result" where
  "check_for_bot_detection page =
     (case scan_page page of
        (inds, Some e) \<Rightarrow> DetectionError (str_exn e)
      | (inds, None) \<Rightarrow>
          if inds \<noteq> [] then Detection True inds (min (of_nat (length inds) * (3 / 10)) 1)
          else Detection False inds 0)"

text \<open>
  A page that shows a CAPTCHA text and navigates away while it is scanned, so that
  \<^verbatim>\<open>page.title()\<close> raises; and a page that shows the text and stays.
\<close>

definition captcha_page :: Page where
  "captcha_page =
     \<lparr>content = Inr ''Please solve the CAPTCHA'',
      query_selector_all = (\<lambda>selector. Inr 0),
      title = Inr ''IMDb'',
      page_url = ''https://www.imdb.com/title/tt0111161/''\<rparr>"


subsection \<open>IMDbScraper: navigation with retries\<close>

record ScrapingStats =
  pages_visited :: int
  movies_scraped :: int
  people_scraped :: int
  media_extracted :: int
  errors :: int

text \<open>
  The scraper's proxy manager and counters. The browser, context and page handles are
  opaque to \<^verbatim>\<open>navigate_to_page\<close>; what the browser does is part of the environment.
\<close>

record IMDbScraper =
  scraper_proxy_manager :: "ProxyManager option"
  scraping_stats :: ScrapingStats

definition new_scraper :: "ProxyManager option \<Rightarrow> IMDbScraper" where
  "new_scraper pm =
     \<lparr>scraper_proxy_manager = pm,
      scraping_stats = \<lparr>pages_visited = 0, movies_scraped = 0, people_scraped = 0,
                        media_extracted = 0, errors = 0\<rparr>\<rparr>"

text \<open>
  How a call of \<^verbatim>\<open>initialize_browser\<close> goes: Playwright fails to start, the launch (or
  a later step) fails after the current proxy has been read, or the browser is ready.
  The method logs and re-raises.
\<close>

datatype browser_start = StartRaises exn | LaunchRaises exn | Started

definition initialize_browser :: "IMDbScraper \<Rightarrow> browser_start \<Rightarrow> exn option \<times> IMDbScraper" where
  "initialize_browser s b =
     (case b of
        StartRaises e \<Rightarrow> (Some e, s)
      | _ \<Rightarrow>
          let s1 = (case scraper_proxy_manager s of
                      None \<Rightarrow> s
                    | Some pm \<Rightarrow> s\<lparr>scraper_proxy_manager := Some (fst (get_current_proxy pm))\<rparr>)
          in (case b of LaunchRaises e \<Rightarrow> Some e | _ \<Rightarrow> None, s1))"

text \<open>
  What one attempt of \<^verbatim>\<open>navigate_to_page\<close> meets: \<^verbatim>\<open>page.goto\<close> raises, the evasion
  sequence raises, or the page is loaded; then the page is scanned, and should the
  browser be re-initialised, \<open>browser_start\<close> says how that goes.
\<close>

datatype attempt_outcome =
    GotoRaises exn
  | EvadeRaises exn
  | PageLoaded Page browser_start

text \<open>
  The \<^verbatim>\<open>except\<close> handler of the loop body and the loop itself. \<open>pending\<close> holds the
  attempt numbers still to run (\<^verbatim>\<open>range(retries)\<close> at the start); the sleeps take a
  random time and change nothing else.
\<close>

fun navigate_attempts ::
  "IMDbScraper \<Rightarrow> int \<Rightarrow> (nat \<Rightarrow> attempt_outcome) \<Rightarrow> nat list \<Rightarrow> bool \<times> IMDbScraper" where
  "navigate_attempts s retries env [] = (False, s)"
| "navigate_attempts s retries env (attempt # pending) =
     (let handler = (\<lambda>s'. if int attempt = retries - 1
                          then (False, s'\<lparr>scraping_stats :=
                                   (scraping_stats s')\<lparr>errors := errors (scraping_stats s') + 1\<rparr>\<rparr>)
                          else navigate_attempts s' retries env pending)
      in case env attempt of
           GotoRaises e \<Rightarrow> handler s
         | EvadeRaises e \<Rightarrow> handler s
         | PageLoaded page restart \<Rightarrow>
             if detected (check_for_bot_detection page) then
               (case scraper_proxy_manager s of
                  Some pm \<Rightarrow>
                    (case initialize_browser
                            (s\<lparr>scraper_proxy_manager := Some (fst (rotate_proxy pm))\<rparr>) restart of
                       (Some e, s1) \<Rightarrow> handler s1
                     | (None, s1) \<Rightarrow>
                         if int attempt = retries - 1 then (False, s1)
                         else navigate_attempts s1 retries env pending)
                | None \<Rightarrow>
                    if int attempt = retries - 1 then (False, s)
                    else navigate_attempts s retries env pending)
             else
               (True, s\<lparr>scraping_stats :=
                  (scraping_stats s)\<lparr>pages_visited := pages_visited (scraping_stats s) + 1\<rparr>\<rparr>))"

definition navigate_to_page ::
  "IMDbScraper \<Rightarrow> string \<Rightarrow> int \<Rightarrow> (string \<Rightarrow> nat \<Rightarrow> attempt_outcome) \<Rightarrow> bool \<times> IMDbScraper" where
  "navigate_to_page s target retries env =
     navigate_attempts s retries (env target) [0..<nat retries]"

text \<open>
  Two sites: one answers every visit with the CAPTCHA page, the other one cannot be
  reached.
\<close>

definition blocking_site :: "string \<Rightarrow> nat \<Rightarrow> attempt_outcome" where
  "blocking_site target attempt = PageLoaded captcha_page Started"

definition unreachable_site :: "string \<Rightarrow> nat \<Rightarrow> attempt_outcome" where
  "unreachable_site target attempt = GotoRaises (PlaywrightError ''net::ERR_CONNECTION_REFUSED'')"

subsection \<open>MediaDownloader: settings\<close>

record DownloadStats =
  total_downloads :: int
  successful_downloads :: int
  failed_downloads :: int
  total_bytes :: int

record MediaDownloader =
  proxy_manager :: "ProxyManager option"
  concurrent_downloads :: int
  download_timeout :: int
  max_file_size :: int
  retry_attempts :: int
  download_stats :: DownloadStats

definition new_media_downloader :: "ProxyManager option \<Rightarrow> MediaDownloader" where
  "new_media_downloader pm =
     \<lparr>proxy_manager = pm, concurrent_downloads = 5, download_timeout = 30,
      max_file_size = 100 * 1024 * 1024, retry_attempts = 3,
      download_stats = \<lparr>total_downloads = 0, successful_downloads = 0,
                        failed_downloads = 0, total_bytes = 0\<rparr>\<rparr>"

text \<open>\<^verbatim>\<open>configure_download_settings\<close>; an omitted argument is \<open>None\<close>.\<close>

definition configure_download_settings ::
  "MediaDownloader \<Rightarrow> int option \<Rightarrow> int option \<Rightarrow> int option \<Rightarrow> int option \<Rightarrow> MediaDownloader" where
  "configure_download_settings d cd dt mfs ra =
     (let d1 = (case cd of None \<Rightarrow> d
                | Some v \<Rightarrow> d\<lparr>concurrent_downloads := max 1 (min v 20)\<rparr>);
          d2 = (case dt of None \<Rightarrow> d1
                | Some v \<Rightarrow> d1\<lparr>download_timeout := max 10 (min v 300)\<rparr>);
          d3 = (case mfs of None \<Rightarrow> d2
                | Some v \<Rightarrow> d2\<lparr>max_file_size := max (1024 * 1024) (min v (1024 * 1024 * 1024))\<rparr>);
          d4 = (case ra of None \<Rightarrow> d3
                | Some v \<Rightarrow> d3\<lparr>retry_attempts := max 1 (min v 10)\<rparr>)
      in d4)"

text \<open>The range invariant of the four settings.\<close>

definition settings_in_range :: "MediaDownloader \<Rightarrow> bool" where
  "settings_in_range d \<longleftrightarrow>
     1 \<le> concurrent_downloads d \<and> concurrent_downloads d \<le> 20 \<and>
     10 \<le> download_timeout d \<and> download_timeout d \<le> 300 \<and>
     1024 * 1024 \<le> max_file_size d \<and> max_file_size d \<le> 1024 * 1024 * 1024 \<and>
     1 \<le> retry_attempts d \<and> retry_attempts d \<le> 10"

text \<open>
  The downloaders a program can hold: a fresh one, and whatever
  \<^verbatim>\<open>configure_download_settings\<close> makes of one (no other method assigns a setting).
\<close>

inductive configured :: "MediaDownloader \<Rightarrow> bool" where
  fresh: "configured (new_media_downloader pm)"
| stats: "configured d \<Longrightarrow> configured (d\<lparr>download_stats := s, proxy_manager := pm\<rparr>)"
| conf: "configured d \<Longrightarrow> configured (configure_download_settings d cd dt mfs ra)"

subsection \<open>MediaDownloader: the outside world\<close>

text \<open>
  Library functions the downloader and the storage service call, as parameters:
  \<^item> \<open>url_valid\<close>: \<^verbatim>\<open>all([urlparse(url).scheme, urlparse(url).netloc])\<close>;
  \<^item> \<open>url_path_suffix\<close>: \<^verbatim>\<open>Path(unquote(urlparse(url).path)).suffix\<close>;
  \<^item> \<open>guess_extension\<close> and \<open>guess_type\<close>: the tables of \<^verbatim>\<open>mimetypes\<close>;
  \<^item> \<open>splitext_ext\<close>: \<^verbatim>\<open>os.path.splitext(s)[1]\<close>;
  \<^item> \<open>md5_hexdigest\<close>: \<^verbatim>\<open>hashlib.md5(data).hexdigest()\<close>;
  \<^item> \<open>downloads_dir\<close>: \<^verbatim>\<open>settings.DOWNLOADS_DIR\<close>.
\<close>

type_synonym bytes = "char list"

record PyLib =
  url_valid :: "string \<Rightarrow> bool"
  url_path_suffix :: "string \<Rightarrow> string"
  guess_extension :: "string \<Rightarrow> string option"
  guess_type :: "string \<Rightarrow> string option"
  splitext_ext :: "string \<Rightarrow> string"
  md5_hexdigest :: "bytes \<Rightarrow> string"
  downloads_dir :: string

text \<open>
  An HTTP exchange: the request fails, or a response arrives with a status, the two
  headers the code reads, and a body whose reading may fail.
\<close>

record http_response =
  resp_status :: int
  resp_content_type :: "string option"
  resp_content_length :: "string option"
  resp_body :: "exn + bytes"

datatype http_outcome = RequestRaises exn | Response http_response

text \<open>What the code does to the world, in order.\<close>

datatype io_event =
    HttpGet string "string option"
  | ReadBody
  | Sleep int
  | WriteFile string

text \<open>
  The world: \<open>net n\<close> answers the \<open>n\<close>-th request issued, \<open>clock n\<close> is the \<open>n\<close>-th
  reading of \<^verbatim>\<open>datetime.now().strftime("%Y%m%d_%H%M%S")\<close>, \<open>files\<close> maps a path to
  the content stored there (the first entry for a path counts), \<open>write_error\<close> names
  the paths that cannot be written, and \<open>trace\<close> records the events so far.
\<close>

record World =
  net :: "nat \<Rightarrow> http_outcome"
  requests :: nat
  clock :: "nat \<Rightarrow> string"
  clock_reads :: nat
  files :: "(string \<times> bytes) list"
  write_error :: "string \<Rightarrow> exn option"
  trace :: "io_event list"

definition read_clock :: "World \<Rightarrow> string \<times> World" where
  "read_clock w = (clock w (clock_reads w), w\<lparr>clock_reads := clock_reads w + 1\<rparr>)"

definition emit :: "io_event \<Rightarrow> World \<Rightarrow> World" where
  "emit ev w = w\<lparr>trace := trace w @ [ev]\<rparr>"

text \<open>The sleeps and the requests among the events.\<close>

fun sleeps :: "io_event list \<Rightarrow> int list" where
  "sleeps [] = []"
| "sleeps (Sleep n # evs) = n # sleeps evs"
| "sleeps (ev # evs) = sleeps evs"

fun is_http_get :: "io_event \<Rightarrow> bool" where
  "is_http_get (HttpGet target via) = True"
| "is_http_get ev = False"

subsection \<open>StorageService: saving a download\<close>

text \<open>
  Python's \<^verbatim>\<open>str.isalnum\<close> on ASCII characters, and the characters
  \<^verbatim>\<open>_generate_safe_filename\<close> keeps.
\<close>

definition is_alnum :: "char \<Rightarrow> bool" where
  "is_alnum c \<longleftrightarrow>
     c \<in> set ''ABCDEFGHIJKLMNOPQRSTUVWXYZabcdefghijklmnopqrstuvwxyz0123456789''"

text \<open>
  \<^verbatim>\<open>_generate_safe_filename(original_filename)\<close> with the default empty prefix. The
  name is split by \<^verbatim>\<open>os.path.splitext\<close> and glued again as \<^verbatim>\<open>{name}{ext}\<close>, which
  is the safe name itself.
\<close>

definition generate_safe_filename :: "World \<Rightarrow> string \<Rightarrow> string \<times> World" where
  "generate_safe_filename w original_filename =
     (let safe_name = filter (\<lambda>c. is_alnum c \<or> c \<in> set ''._-'') original_filename;
          (timestamp, w1) = read_clock w
      in (timestamp @ ''_'' @ safe_name, w1))"

definition movie_dir :: "PyLib \<Rightarrow> int \<Rightarrow> string" where
  "movie_dir L mid = downloads_dir L @ ''/movie_'' @ str_int mid"

datatype save_result =
    Saved string string int string "string option"
  | SaveFailed string

text \<open>
  \<^verbatim>\<open>save_downloaded_media\<close>: every exception of the body becomes
  \<^verbatim>\<open>{"success": False, "error": str(e)}\<close>. The fields of \<open>Saved\<close> are
  \<^verbatim>\<open>local_path\<close>, \<^verbatim>\<open>filename\<close>, \<^verbatim>\<open>file_size\<close>, \<^verbatim>\<open>file_hash\<close> and \<^verbatim>\<open>mime_type\<close>.
\<close>

definition save_downloaded_media ::
  "PyLib \<Rightarrow> World \<Rightarrow> bytes \<Rightarrow> string \<Rightarrow> int \<Rightarrow> string \<Rightarrow> string option \<Rightarrow> save_result \<times> World" where
  "save_downloaded_media L w file_data original_url mid ftype file_extension =
     (let ext = (case file_extension of
                   Some e \<Rightarrow> if e = [] then None else Some e
                 | None \<Rightarrow> None);
          ext1 = (case ext of
                    Some e \<Rightarrow> e
                  | None \<Rightarrow> if splitext_ext L original_url = [] then ''.jpg''
                            else splitext_ext L original_url);
          base_name = ''movie_'' @ str_int mid @ ''_'' @ ftype;
          (name, w1) = generate_safe_filename w (base_name @ ext1);
          file_path = movie_dir L mid @ ''/'' @ name
      in case write_error w1 file_path of
           Some e \<Rightarrow> (SaveFailed (str_exn e), w1)
         | None \<Rightarrow>
             (Saved file_path name (int (length file_data)) (md5_hexdigest L file_data)
                (guess_type L name),
              emit (WriteFile file_path) (w1\<lparr>files := (file_path, file_data) # files w1\<rparr>)))"

subsection \<open>MediaDownloader: one download\<close>

text \<open>\<^verbatim>\<open>get_proxy_url\<close> of the proxy manager.\<close>

definition get_proxy_url :: "ProxyInfo \<Rightarrow> string" where
  "get_proxy_url proxy =
     (if username proxy \<notin> {None, Some []} \<and> password proxy \<notin> {None, Some []}
      then protocol proxy @ ''://'' @ the (username proxy) @ '':'' @ the (password proxy)
             @ ''@'' @ host proxy @ '':'' @ str_int (port proxy)
      else protocol proxy @ ''://'' @ host proxy @ '':'' @ str_int (port proxy))"

text \<open>
  Python's \<^verbatim>\<open>int(s)\<close> on a header value: an optional sign and decimal digits (the
  surrounding blanks and the underscores Python also accepts are left out); \<open>None\<close>
  where \<^verbatim>\<open>int\<close> raises \<^verbatim>\<open>ValueError\<close>.
\<close>

definition digit_of :: "char \<Rightarrow> nat option" where
  "digit_of c = map_of (zip ''0123456789'' [0, 1, 2, 3, 4, 5, 6, 7, 8, 9]) c"

fun parse_digits :: "nat \<Rightarrow> string \<Rightarrow> nat option" where
  "parse_digits acc [] = Some acc"
| "parse_digits acc (c # cs) =
     (case digit_of c of None \<Rightarrow> None | Some v \<Rightarrow> parse_digits (10 * acc + v) cs)"

definition py_int :: "string \<Rightarrow> int option" where
  "py_int s =
     (case s of
        [] \<Rightarrow> None
      | c # cs \<Rightarrow>
          if c = CHR ''-'' then (if cs = [] then None else map_option (\<lambda>n. - int n) (parse_digits 0 cs))
          else if c = CHR ''+'' then (if cs = [] then None else map_option int (parse_digits 0 cs))
          else map_option int (parse_digits 0 s))"

text \<open>A header or argument that Python treats as true: present and not empty.\<close>

definition truthy :: "string option \<Rightarrow> bool" where
  "truthy v \<longleftrightarrow> v \<noteq> None \<and> v \<noteq> Some []"

text \<open>\<^verbatim>\<open>_get_file_extension(url, content_type)\<close>.\<close>

definition get_file_extension :: "PyLib \<Rightarrow> string \<Rightarrow> string option \<Rightarrow> string" where
  "get_file_extension L target content_type =
     (let path_ext = url_path_suffix L target in
      if path_ext \<noteq> [] then lower path_ext
      else
        let guessed = (if truthy content_type then guess_extension L (the content_type) else None) in
        if truthy guessed then lower (the guessed)
        else if contains ''image'' (lower target)
                \<or> (truthy content_type \<and> contains ''image'' (the content_type)) then ''.jpg''
        else if contains ''video'' (lower target)
                \<or> (truthy content_type \<and> contains ''video'' (the content_type)) then ''.mp4''
        else ''.bin'')"

text \<open>\<^verbatim>\<open>_is_valid_url\<close> and \<^verbatim>\<open>_generate_filename\<close>; the latter reads the clock.\<close>

definition is_valid_url :: "PyLib \<Rightarrow> string \<Rightarrow> bool" where
  "is_valid_url L target = url_valid L target"

definition generate_filename ::
  "PyLib \<Rightarrow> World \<Rightarrow> string \<Rightarrow> int \<Rightarrow> string \<Rightarrow> string \<Rightarrow> string \<times> World" where
  "generate_filename L w target mid ftype qual =
     (let ext = get_file_extension L target None;
          (timestamp, w1) = read_clock w
      in (''movie_'' @ str_int mid @ ''_'' @ ftype @ ''_'' @ qual @ ''_'' @ timestamp @ ext, w1))"

text \<open>
  \<^verbatim>\<open>_check_existing_file\<close>: the path, name, size and hash of the file, when the path
  exists (an existing file is taken to be readable).
\<close>

definition check_existing_file ::
  "PyLib \<Rightarrow> World \<Rightarrow> string \<Rightarrow> int \<Rightarrow> (string \<times> string \<times> int \<times> string) option" where
  "check_existing_file L w name mid =
     (let file_path = movie_dir L mid @ ''/'' @ name in
      case map_of (files w) file_path of
        None \<Rightarrow> None
      | Some data \<Rightarrow> Some (file_path, name, int (length data), md5_hexdigest L data))"

record file_info =
  extension :: "string option"
  content_type :: "string option"
  content_length :: "string option"

text \<open>
  The body of the \<^verbatim>\<open>try\<close> block of one attempt of \<^verbatim>\<open>_download_file_data\<close>: the proxy
  is looked up, the request is issued, and a response with status 200 is checked
  against \<^verbatim>\<open>max_file_size\<close> by its \<^verbatim>\<open>Content-Length\<close> before the body is read. The
  dictionary \<^verbatim>\<open>file_info\<close> is updated in place and keeps its entries when the attempt
  raises.
\<close>

definition attempt_download ::
  "PyLib \<Rightarrow> MediaDownloader \<Rightarrow> string \<Rightarrow> World \<Rightarrow> file_info
     \<Rightarrow> (exn + bytes) \<times> MediaDownloader \<times> World \<times> file_info" where
  "attempt_download L d target w fi =
     (let (pm1, proxy) = (case proxy_manager d of
                            None \<Rightarrow> (None, None)
                          | Some pm \<Rightarrow> (Some (fst (get_current_proxy pm)), snd (get_current_proxy pm)));
          proxy_url = map_option get_proxy_url (case pm1 of None \<Rightarrow> None | Some pm \<Rightarrow> proxy_at pm proxy);
          d1 = d\<lparr>proxy_manager := pm1\<rparr>;
          w1 = emit (HttpGet target proxy_url) (w\<lparr>requests := requests w + 1\<rparr>)
      in case net w (requests w) of
           RequestRaises e \<Rightarrow> (Inl e, d1, w1, fi)
         | Response response \<Rightarrow>
             if resp_status response = 200 then
               let fi1 = fi\<lparr>content_type := resp_content_type response,
                            content_length := resp_content_length response\<rparr>;
                   fi2 = fi1\<lparr>extension := Some (get_file_extension L target (content_type fi1))\<rparr>;
                   size_check =
                     (if truthy (content_length fi2) then
                        (case py_int (the (content_length fi2)) of
                           None \<Rightarrow> Some (ValueError (''invalid literal for int() with base 10: ''
                                                       @ the (content_length fi2)))
                         | Some n \<Rightarrow>
                             if n > max_file_size d
                             then Some (ValueError (''File too large: '' @ str_int n @ '' bytes''))
                             else None)
                      else None)
               in case size_check of
                    Some e \<Rightarrow> (Inl e, d1, w1, fi2)
                  | None \<Rightarrow>
                      (case resp_body response of
                         Inl e \<Rightarrow> (Inl e, d1, emit ReadBody w1, fi2)
                       | Inr file_data \<Rightarrow>
                           (case (pm1, proxy) of
                              (Some pm, Some i) \<Rightarrow>
                                let (now, w2) = read_clock (emit ReadBody w1) in
                                (Inr file_data,
                                 d1\<lparr>proxy_manager := Some (mark_proxy_success pm i None now)\<rparr>,
                                 w2, fi2)
                            | _ \<Rightarrow> (Inr file_data, d1, emit ReadBody w1, fi2)))
             else (Inl (ClientResponseError (resp_status response)), d1, w1, fi))"

text \<open>
  The first half of the \<^verbatim>\<open>except\<close> handler: the current proxy, if there is one, is
  marked as failed and the manager rotates.
\<close>

definition fail_current_proxy :: "MediaDownloader \<Rightarrow> MediaDownloader" where
  "fail_current_proxy d =
     (case proxy_manager d of
        None \<Rightarrow> d
      | Some pm \<Rightarrow>
          (case get_current_proxy pm of
             (pm1, None) \<Rightarrow> d\<lparr>proxy_manager := Some pm1\<rparr>
           | (pm1, Some i) \<Rightarrow>
               d\<lparr>proxy_manager := Some (fst (rotate_proxy (mark_proxy_failed pm1 i)))\<rparr>))"

text \<open>
  What \<^verbatim>\<open>_download_file_data\<close> ends with: an exception, or the pair of the data (or
  \<^verbatim>\<open>None\<close>) and \<^verbatim>\<open>file_info\<close>.
\<close>

datatype fetch_result = Raised exn | Returned "bytes option" file_info

text \<open>
  The loop \<^verbatim>\<open>for attempt in range(self.retry_attempts)\<close>; \<open>pending\<close> holds the attempt
  numbers still to run. A failed attempt that is not the last one sleeps
  \<^verbatim>\<open>2 ** attempt\<close> seconds; the last one re-raises.
\<close>

fun download_attempts ::
  "PyLib \<Rightarrow> string \<Rightarrow> nat list \<Rightarrow> MediaDownloader \<Rightarrow> World \<Rightarrow> file_info
     \<Rightarrow> fetch_result \<times> MediaDownloader \<times> World" where
  "download_attempts L target [] d w fi = (Returned None fi, d, w)"
| "download_attempts L target (attempt # pending) d w fi =
     (case attempt_download L d target w fi of
        (Inr file_data, d1, w1, fi1) \<Rightarrow> (Returned (Some file_data) fi1, d1, w1)
      | (Inl e, d1, w1, fi1) \<Rightarrow>
          let d2 = fail_current_proxy d1 in
          if int attempt = retry_attempts d2 - 1 then (Raised e, d2, w1)
          else download_attempts L target pending d2 (emit (Sleep (2 ^ attempt)) w1) fi1)"

definition download_file_data ::
  "PyLib \<Rightarrow> MediaDownloader \<Rightarrow> string \<Rightarrow> World \<Rightarrow> fetch_result \<times> MediaDownloader \<times> World" where
  "download_file_data L d target w =
     download_attempts L target [0..<nat (retry_attempts d)] d w
       \<lparr>extension = None, content_type = None, content_length = None\<rparr>"

text \<open>
  The dictionary \<^verbatim>\<open>download_result\<close>. The entry \<^verbatim>\<open>download_time\<close>, a difference of
  two readings of the event loop's clock, is left out.
\<close>

record DownloadResult =
  success :: bool
  url :: string
  movie_id :: int
  file_type :: string
  local_path :: "string option"
  filename :: "string option"
  file_size :: int
  file_hash :: "string option"
  mime_type :: "string option"
  error :: "string option"

text \<open>
  The \<^verbatim>\<open>try\<close> block of \<^verbatim>\<open>download_media_file\<close>: it returns early for an existing
  file, runs to its end after a successful save, or raises. \<open>Inr (r, counted)\<close> is a
  result together with whether the success counters are to be updated.
\<close>

definition download_body ::
  "PyLib \<Rightarrow> MediaDownloader \<Rightarrow> World \<Rightarrow> DownloadResult \<Rightarrow> string \<Rightarrow> int \<Rightarrow> string \<Rightarrow> string \<Rightarrow> bool
     \<Rightarrow> (exn + DownloadResult \<times> bool) \<times> MediaDownloader \<times> World" where
  "download_body L d w r target mid ftype qual force =
     (if \<not> is_valid_url L target then (Inl (ValueError (''Invalid URL: '' @ target)), d, w)
      else
        let (name, w1) = generate_filename L w target mid ftype qual;
            existing_file = (if force then None else check_existing_file L w1 name mid)
        in case existing_file of
             Some (path, fname, sz, hsh) \<Rightarrow>
               (Inr (r\<lparr>local_path := Some path, filename := Some fname, file_size := sz,
                        file_hash := Some hsh, success := True\<rparr>, False), d, w1)
           | None \<Rightarrow>
               (case download_file_data L d target w1 of
                  (Raised e, d1, w2) \<Rightarrow> (Inl e, d1, w2)
                | (Returned file_data fi, d1, w2) \<Rightarrow>
                    if file_data = None \<or> file_data = Some [] then
                      (Inl (ValueError ''No data downloaded''), d1, w2)
                    else if int (length (the file_data)) > max_file_size d1 then
                      (Inl (ValueError (''File too large: '' @ str_int (int (length (the file_data)))
                                         @ '' bytes'')), d1, w2)
                    else
                      (case save_downloaded_media L w2 (the file_data) target mid ftype (extension fi) of
                         (Saved path fname sz hsh mime, w3) \<Rightarrow>
                           (Inr (r\<lparr>success := True, local_path := Some path, filename := Some fname,
                                    file_size := sz, file_hash := Some hsh, mime_type := mime\<rparr>,
                                 True), d1, w3)
                       | (SaveFailed msg, w3) \<Rightarrow>
                           (Inl (ValueError (''Failed to save file: '' @ msg)), d1, w3))))"

text \<open>
  \<^verbatim>\<open>download_media_file\<close>: the \<^verbatim>\<open>except\<close> clause records the error and counts a
  failed download, the \<^verbatim>\<open>finally\<close> clause counts the download.
\<close>

definition download_media_file ::
  "PyLib \<Rightarrow> MediaDownloader \<Rightarrow> World \<Rightarrow> string \<Rightarrow> int \<Rightarrow> string \<Rightarrow> string \<Rightarrow> bool
     \<Rightarrow> DownloadResult \<times> MediaDownloader \<times> World" where
  "download_media_file L d w target mid ftype qual force =
     (let download_result =
            \<lparr>success = False, url = target, movie_id = mid, file_type = ftype,
             local_path = None, filename = None, file_size = 0, file_hash = None,
             mime_type = None, error = None\<rparr>;
          (outcome, d1, w1) = download_body L d w download_result target mid ftype qual force;
          st = download_stats d1;
          (r, st1) =
            (case outcome of
               Inr (r, counted) \<Rightarrow>
                 (r, if counted
                     then st\<lparr>successful_downloads := successful_downloads st + 1,
                             total_bytes := total_bytes st + file_size r\<rparr>
                     else st)
             | Inl e \<Rightarrow>
                 (download_result\<lparr>error := Some (str_exn e)\<rparr>,
                  st\<lparr>failed_downloads := failed_downloads st + 1\<rparr>))
      in (r, d1\<lparr>download_stats := st1\<lparr>total_downloads := total_downloads st1 + 1\<rparr>\<rparr>, w1))"

subsection \<open>MediaDownloader: auxiliary notions and example worlds\<close>

text \<open>
  The number of requests a run of \<^verbatim>\<open>_download_file_data\<close> has issued when \<open>m\<close> of
  its attempts failed and were followed by a sleep: one more (the attempt that ended
  the run), unless the loop ran out without a last attempt.
\<close>

definition attempts_made :: "fetch_result \<Rightarrow> nat \<Rightarrow> nat" where
  "attempts_made res m = (case res of Returned None fi \<Rightarrow> m | _ \<Rightarrow> m + 1)"


text \<open>
  The library functions at the URL of the examples, \<^verbatim>\<open>http://x/img.jpg\<close>: the URL is
  valid, its path ends in \<^verbatim>\<open>.jpg\<close>, and JPEG is the only type known.
\<close>

definition example_lib :: PyLib where
  "example_lib =
     \<lparr>url_valid = (\<lambda>u. contains ''://'' u),
      url_path_suffix = (\<lambda>u. ''.jpg''),
      guess_extension = (\<lambda>t. if t = ''image/jpeg'' then Some ''.jpg'' else None),
      guess_type = (\<lambda>n. Some ''image/jpeg''),
      splitext_ext = (\<lambda>s. ''.jpg''),
      md5_hexdigest = (\<lambda>data. ''5c9597f3c8245907ea71a89d9d39d08e''),
      downloads_dir = ''data/downloads''\<rparr>"

text \<open>
  A world in which every request is answered with status 200 and a JPEG of 50 bytes,
  the clock stands still, and the disk is empty and writable.
\<close>

definition small_image :: http_response where
  "small_image =
     \<lparr>resp_status = 200, resp_content_type = Some ''image/jpeg'',
      resp_content_length = Some ''50'', resp_body = Inr (replicate 50 (CHR ''x''))\<rparr>"

definition serving_world :: World where
  "serving_world =
     \<lparr>net = (\<lambda>n. Response small_image), requests = 0,
      clock = (\<lambda>n. ''20240101_120000''), clock_reads = 0,
      files = [], write_error = (\<lambda>p. None), trace = []\<rparr>"

text \<open>
  The same world, but every response declares 104857601 bytes, one more than the
  default \<^verbatim>\<open>max_file_size\<close>; and a world whose server answers 404.
\<close>

definition oversized_world :: World where
  "oversized_world =
     serving_world\<lparr>net := (\<lambda>n. Response (small_image\<lparr>resp_content_length := Some ''104857601''\<rparr>))\<rparr>"

definition missing_world :: World where
  "missing_world =
     serving_world\<lparr>net := (\<lambda>n. Response (small_image\<lparr>resp_status := 404\<rparr>))\<rparr>"

text \<open>
  Two calls of \<^verbatim>\<open>download_media_file\<close> with the same arguments, one after the other.
\<close>

definition first_call :: "DownloadResult \<times> MediaDownloader \<times> World" where
  "first_call =
     download_media_file example_lib (new_media_downloader None) serving_world
       ''http://x/img.jpg'' 7 ''poster'' ''high'' False"

definition second_call :: "DownloadResult \<times> MediaDownloader \<times> World" where
  "second_call =
     download_media_file example_lib (fst (snd first_call)) (snd (snd first_call))
       ''http://x/img.jpg'' 7 ''poster'' ''high'' False"

definition oversized_call :: "DownloadResult \<times> MediaDownloader \<times> World" where
  "oversized_call =
     download_media_file example_lib (new_media_downloader None) oversized_world
       ''http://x/img.jpg'' 7 ''poster'' ''high'' False"

subsection \<open>MediaDownloader: batches\<close>













section \<open>Properties\<close>

subsection \<open>ProxyManager: the current proxy\<close>

lemma working_refs_lt: "i \<in> set (working_refs ps) \<Longrightarrow> i < length ps \<and> is_working (ps ! i)"
  by (auto simp: working_refs_def)

lemma working_refs_empty: "working_refs ps = [] \<longleftrightarrow> (\<forall>p \<in> set ps. \<not> is_working p)"
proof
  assume e: "working_refs ps = []"
  show "\<forall>p \<in> set ps. \<not> is_working p"
  proof
    fix p assume "p \<in> set ps"
    then obtain i where i: "i < length ps" "ps ! i = p" by (auto simp: in_set_conv_nth)
    from e have "\<forall>j \<in> set [0..<length ps]. \<not> is_working (ps ! j)"
      by (simp add: working_refs_def filter_empty_conv)
    with i show "\<not> is_working p" by auto
  qed
next
  assume a: "\<forall>p \<in> set ps. \<not> is_working p"
  have "\<forall>j \<in> set [0..<length ps]. \<not> is_working (ps ! j)"
    using a nth_mem by auto
  then show "working_refs ps = []"
    unfolding working_refs_def filter_empty_conv by simp
qed

lemma working_refs_all: "\<forall>p \<in> set ps. is_working p \<Longrightarrow> working_refs ps = [0..<length ps]"
  by (auto simp: working_refs_def filter_id_conv)

lemma norm_index_lt: "0 < n \<Longrightarrow> norm_index k n < n"
  by (simp add: norm_index_def)

lemma norm_index_id: "k < n \<Longrightarrow> norm_index k n = k"
  by (simp add: norm_index_def)

lemma gcp_empty: "proxies pm = [] \<Longrightarrow> get_current_proxy pm = (pm, None)"
  by (simp add: get_current_proxy_def)

lemma gcp_reset:
  assumes "proxies pm \<noteq> []" "working_refs (proxies pm) = []"
  shows "get_current_proxy pm =
    (pm\<lparr>proxies := map (\<lambda>p. p\<lparr>is_working := True\<rparr>) (proxies pm),
        current_proxy_index := norm_index (current_proxy_index pm) (length (proxies pm))\<rparr>,
     Some (norm_index (current_proxy_index pm) (length (proxies pm))))"
  using assms by (simp add: get_current_proxy_def Let_def norm_index_def)

lemma gcp_working:
  assumes "working_refs (proxies pm) \<noteq> []"
  shows "get_current_proxy pm =
    (pm\<lparr>current_proxy_index := norm_index (current_proxy_index pm) (length (working_refs (proxies pm)))\<rparr>,
     Some (working_refs (proxies pm) ! norm_index (current_proxy_index pm) (length (working_refs (proxies pm)))))"
proof -
  have "proxies pm \<noteq> []" using assms by (auto simp: working_refs_def)
  then show ?thesis using assms by (simp add: get_current_proxy_def Let_def norm_index_def)
qed

lemma working_refs_enabled:
  "working_refs (map (\<lambda>p. p\<lparr>is_working := True\<rparr>) ps) = [0..<length ps]"
  using working_refs_all [of "map (\<lambda>p. p\<lparr>is_working := True\<rparr>) ps"] by simp



lemma gcp_result:
  assumes "proxies pm \<noteq> []"
  shows "\<exists>i. snd (get_current_proxy pm) = Some i \<and>
             i < length (proxies (fst (get_current_proxy pm))) \<and>
             is_working (proxies (fst (get_current_proxy pm)) ! i)"
proof (cases "working_refs (proxies pm) = []")
  case True
  have "0 < length (proxies pm)" using assms by simp
  then have "norm_index (current_proxy_index pm) (length (proxies pm)) < length (proxies pm)"
    by (rule norm_index_lt)
  then show ?thesis using gcp_reset [OF assms True] by simp
next
  case False
  let ?w = "working_refs (proxies pm)"
  let ?k = "norm_index (current_proxy_index pm) (length ?w)"
  have "?k < length ?w" using False by (simp add: norm_index_lt)
  then have "?w ! ?k \<in> set ?w" by (rule nth_mem)
  then have "?w ! ?k < length (proxies pm) \<and> is_working (proxies pm ! (?w ! ?k))"
    by (rule working_refs_lt)
  then show ?thesis using gcp_working [OF False] by simp
qed

text \<open>
  Claim C2. On a non-empty pool \<^verbatim>\<open>get_current_proxy()\<close> returns a proxy of the pool,
  never \<open>None\<close>; it returns \<open>None\<close> exactly when the pool is empty; and when every
  proxy is marked as not working, the call re-enables all of them (the pool is the old
  one with \<^verbatim>\<open>is_working = True\<close> everywhere) and returns one of them.
\<close>

theorem get_current_proxy_liveness:
  "(snd (get_current_proxy pm) = None \<longleftrightarrow> proxies pm = []) \<and>
   (proxies pm \<noteq> [] \<longrightarrow>
      (\<exists>i. snd (get_current_proxy pm) = Some i \<and>
           i < length (proxies (fst (get_current_proxy pm))) \<and>
           is_working (proxies (fst (get_current_proxy pm)) ! i))) \<and>
   (proxies pm \<noteq> [] \<and> (\<forall>p \<in> set (proxies pm). \<not> is_working p) \<longrightarrow>
      proxies (fst (get_current_proxy pm)) = map (\<lambda>p. p\<lparr>is_working := True\<rparr>) (proxies pm))"
proof (intro conjI impI)
  show "snd (get_current_proxy pm) = None \<longleftrightarrow> proxies pm = []"
    using gcp_result [of pm] by (cases "proxies pm = []") (auto simp: gcp_empty)
next
  assume "proxies pm \<noteq> []"
  then show "\<exists>i. snd (get_current_proxy pm) = Some i \<and>
           i < length (proxies (fst (get_current_proxy pm))) \<and>
           is_working (proxies (fst (get_current_proxy pm)) ! i)"
    by (rule gcp_result)
next
  assume a: "proxies pm \<noteq> [] \<and> (\<forall>p \<in> set (proxies pm). \<not> is_working p)"
  then have "working_refs (proxies pm) = []" by (simp add: working_refs_empty)
  then show "proxies (fst (get_current_proxy pm)) = map (\<lambda>p. p\<lparr>is_working := True\<rparr>) (proxies pm)"
    using a gcp_reset [of pm] by simp
qed

text \<open>
  Claim C2, at a pool of two proxies that both failed validation: the call returns the
  first one and the pool is re-enabled.
\<close>

theorem get_current_proxy_liveness_witness:
  "proxies two_failed \<noteq> [] \<and> list_all (\<lambda>p. \<not> is_working p) (proxies two_failed) \<and>
   snd (get_current_proxy two_failed) = Some 0 \<and>
   list_all is_working (proxies (fst (get_current_proxy two_failed)))"
proof -
  have ps: "proxies two_failed \<noteq> []" "\<forall>p \<in> set (proxies two_failed). \<not> is_working p"
    by (simp_all add: two_failed_def validate_proxy_failed_def add_proxy_def new_proxy_manager_def)
  have i: "current_proxy_index two_failed = 0"
    by (simp add: two_failed_def validate_proxy_failed_def add_proxy_def new_proxy_manager_def)
  have w: "working_refs (proxies two_failed) = []" using ps(2) by (simp add: working_refs_empty)
  have r: "snd (get_current_proxy two_failed) = Some 0"
    using gcp_reset [OF ps(1) w] i by (simp add: norm_index_def)
  from get_current_proxy_liveness [of two_failed] ps
  have "proxies (fst (get_current_proxy two_failed)) =
          map (\<lambda>p. p\<lparr>is_working := True\<rparr>) (proxies two_failed)"
    by blast
  then have "list_all is_working (proxies (fst (get_current_proxy two_failed)))"
    by (simp add: list_all_iff)
  then show ?thesis using ps r by (simp add: list_all_iff)
qed

subsection \<open>ProxyManager: rotation\<close>

lemma working_refs_length: "length (working_refs ps) \<le> length ps"
proof -
  have "length (working_refs ps) \<le> length [0..<length ps]"
    unfolding working_refs_def by (rule length_filter_le)
  then show ?thesis by simp
qed


lemma rotate_proxy_advance:
  assumes en: "rotation_enabled pm" and n: "length (working_refs (proxies pm)) = N" "1 \<le> N"
  shows "rotate_proxy pm =
     (pm\<lparr>current_proxy_index := (current_proxy_index pm + 1) mod N\<rparr>,
      Some (working_refs (proxies pm) ! ((current_proxy_index pm + 1) mod N)))"
proof (cases "N = 1")
  case True
  have ne: "working_refs (proxies pm) \<noteq> []" using n by auto
  have z: "norm_index (current_proxy_index pm) (Suc 0) = 0" by (simp add: norm_index_def)
  have "rotate_proxy pm = get_current_proxy pm" using True n by (simp add: rotate_proxy_def)
  then show ?thesis using gcp_working [OF ne] True n by (simp add: z)
next
  case False
  then have n2: "2 \<le> N" using n by simp
  let ?k = "(current_proxy_index pm + 1) mod N"
  let ?pm' = "pm\<lparr>current_proxy_index := ?k\<rparr>"
  have len: "2 \<le> length (proxies pm)"
    using working_refs_length [of "proxies pm"] n n2 by simp
  have ne: "working_refs (proxies ?pm') \<noteq> []" using n by auto
  have k: "?k < N" using n by (auto intro: mod_less_divisor)
  have "rotate_proxy pm = get_current_proxy ?pm'"
    using en n n2 len by (simp add: rotate_proxy_def)
  moreover have "get_current_proxy ?pm' = (?pm', Some (working_refs (proxies pm) ! ?k))"
    using gcp_working [OF ne] n k by (simp add: norm_index_id)
  ultimately show ?thesis by simp
qed

lemma rotate_funpow:
  assumes en: "rotation_enabled pm" and n: "length (working_refs (proxies pm)) = N" "1 \<le> N"
    and i: "current_proxy_index pm < N"
  shows "(rotate ^^ k) pm = pm\<lparr>current_proxy_index := (current_proxy_index pm + k) mod N\<rparr>"
proof (induction k)
  case 0
  then show ?case using i by simp
next
  case (Suc k)
  let ?pk = "pm\<lparr>current_proxy_index := (current_proxy_index pm + k) mod N\<rparr>"
  have "rotate_proxy ?pk =
     (?pk\<lparr>current_proxy_index := (current_proxy_index ?pk + 1) mod N\<rparr>,
      Some (working_refs (proxies ?pk) ! ((current_proxy_index ?pk + 1) mod N)))"
    by (rule rotate_proxy_advance) (use en n in auto)
  then have "rotate ?pk = ?pk\<lparr>current_proxy_index := (current_proxy_index ?pk + 1) mod N\<rparr>"
    by (simp add: rotate_def)
  then show ?case using Suc by (simp add: mod_Suc_eq)
qed




lemma four_proxies_facts:
  "rotation_enabled four_proxies" "length (working_refs (proxies four_proxies)) = 4"
  "current_proxy_index four_proxies = 0"
proof -
  have "\<forall>p \<in> set (proxies four_proxies). is_working p"
    by (simp add: four_proxies_def add_proxy_def new_proxy_manager_def)
  then have "working_refs (proxies four_proxies) = [0..<length (proxies four_proxies)]"
    by (rule working_refs_all)
  then show "length (working_refs (proxies four_proxies)) = 4"
    by (simp add: four_proxies_def add_proxy_def new_proxy_manager_def)
  show "rotation_enabled four_proxies" "current_proxy_index four_proxies = 0"
    by (simp_all add: four_proxies_def add_proxy_def new_proxy_manager_def)
qed

lemma four_proxies_rotated:
  "(rotate ^^ 3) four_proxies = four_proxies\<lparr>current_proxy_index := 3\<rparr>"
proof -
  have "(rotate ^^ 3) four_proxies =
      four_proxies\<lparr>current_proxy_index := (current_proxy_index four_proxies + 3) mod 4\<rparr>"
    by (rule rotate_funpow) (simp_all add: four_proxies_facts)
  then show ?thesis by (simp add: four_proxies_facts)
qed

lemma validate_failed_funpow:
  "i < length (proxies pm) \<Longrightarrow>
   ((\<lambda>pm. validate_proxy_failed pm i) ^^ Suc k) pm =
     pm\<lparr>proxies := (proxies pm)
        [i := (proxies pm ! i)\<lparr>failure_count := failure_count (proxies pm ! i) + 1 + int k,
                               is_working := False\<rparr>]\<rparr>"
proof (induction k)
  case 0
  then show ?case by (simp add: validate_proxy_failed_def)
next
  case (Suc k)
  have "((\<lambda>pm. validate_proxy_failed pm i) ^^ Suc (Suc k)) pm =
        validate_proxy_failed (((\<lambda>pm. validate_proxy_failed pm i) ^^ Suc k) pm) i"
    by simp
  also have "\<dots> = pm\<lparr>proxies := (proxies pm)
        [i := (proxies pm ! i)\<lparr>failure_count := failure_count (proxies pm ! i) + 1 + int (Suc k),
                               is_working := False\<rparr>]\<rparr>"
    using Suc by (simp add: validate_proxy_failed_def)
  finally show ?case .
qed

lemma stale_manager_eq:
  "stale_manager =
    \<lparr>proxies =
      [\<lparr>host = ''10.0.0.3'', port = 8080, username = None, password = None, protocol = ''http'',
        last_used = None, success_count = 0, failure_count = 0, avg_response_time = 0,
        is_working = True, country = None, isp = None\<rparr>,
       \<lparr>host = ''10.0.0.4'', port = 8080, username = None, password = None, protocol = ''http'',
        last_used = None, success_count = 0, failure_count = 0, avg_response_time = 0,
        is_working = True, country = None, isp = None\<rparr>],
     current_proxy_index = 3, rotation_enabled = True\<rparr>"
proof -
  let ?r = "four_proxies\<lparr>current_proxy_index := 3\<rparr>"
  have len: "length (proxies ?r) = 4"
    by (simp add: four_proxies_def add_proxy_def new_proxy_manager_def)
  have a: "((\<lambda>pm. validate_proxy_failed pm 0) ^^ 11) ?r =
      ?r\<lparr>proxies := (proxies ?r)
        [0 := (proxies ?r ! 0)\<lparr>failure_count := failure_count (proxies ?r ! 0) + 1 + int 10,
                               is_working := False\<rparr>]\<rparr>" (is "_ = ?a")
  proof -
    have "0 < length (proxies ?r)" using len by simp
    from validate_failed_funpow [OF this, of 10] show ?thesis by simp
  qed
  have b: "((\<lambda>pm. validate_proxy_failed pm 1) ^^ 11) ?a =
      ?a\<lparr>proxies := (proxies ?a)
        [1 := (proxies ?a ! 1)\<lparr>failure_count := failure_count (proxies ?a ! 1) + 1 + int 10,
                               is_working := False\<rparr>]\<rparr>" (is "_ = ?b")
  proof -
    have "1 < length (proxies ?a)" using len by simp
    from validate_failed_funpow [OF this, of 10] show ?thesis by simp
  qed
  have "stale_manager = fst (remove_failed_proxies ?b)"
    unfolding stale_manager_def four_proxies_rotated a b ..
  also have "\<dots> = \<lparr>proxies =
      [\<lparr>host = ''10.0.0.3'', port = 8080, username = None, password = None, protocol = ''http'',
        last_used = None, success_count = 0, failure_count = 0, avg_response_time = 0,
        is_working = True, country = None, isp = None\<rparr>,
       \<lparr>host = ''10.0.0.4'', port = 8080, username = None, password = None, protocol = ''http'',
        last_used = None, success_count = 0, failure_count = 0, avg_response_time = 0,
        is_working = True, country = None, isp = None\<rparr>],
     current_proxy_index = 3, rotation_enabled = True\<rparr>"
    by (simp add: four_proxies_def add_proxy_def new_proxy_manager_def
          remove_failed_proxies_def)
  finally show ?thesis .
qed

lemma stale_manager_facts:
  "rotation_enabled stale_manager" "working_refs (proxies stale_manager) = [0, 1]"
  "current_proxy_index stale_manager = 3"
proof -
  have "\<forall>p \<in> set (proxies stale_manager). is_working p" by (simp add: stale_manager_eq)
  then have "working_refs (proxies stale_manager) = [0..<length (proxies stale_manager)]"
    by (rule working_refs_all)
  also have "\<dots> = [0..<Suc (Suc 0)]" by (simp add: stale_manager_eq)
  finally show "working_refs (proxies stale_manager) = [0, 1]" by simp
  show "rotation_enabled stale_manager" "current_proxy_index stale_manager = 3"
    by (simp_all add: stale_manager_eq)
qed



text \<open>
  A first rotation that stays. From the index 3 of \<open>stale_manager\<close>, one call of
  \<^verbatim>\<open>rotate_proxy()\<close> leads to index \<open>(3 + 1) mod 2 = 0\<close>: it returns the proxy that
  \<^verbatim>\<open>get_current_proxy()\<close> returns on the same manager, since \<^verbatim>\<open>rotate_proxy\<close> advances
  the index as it stands while \<^verbatim>\<open>get_current_proxy\<close> reads an index past the working
  list as 0.
\<close>

lemma rotate_proxy_from_stale_index:
  "snd (get_current_proxy stale_manager) = Some 0 \<and> snd (rotate_proxy stale_manager) = Some 0 \<and>
   snd (rotate_proxy (rotate stale_manager)) = Some 1"
proof -
  note s = stale_manager_facts
  have sn: "length (working_refs (proxies stale_manager)) = 2" by (simp add: s)
  have g: "snd (get_current_proxy stale_manager) = Some 0"
    using gcp_working [of stale_manager] by (simp add: s norm_index_def)
  have r: "rotate_proxy stale_manager = (stale_manager\<lparr>current_proxy_index := 0\<rparr>, Some 0)"
    using rotate_proxy_advance [OF s(1) sn] by (simp add: s)
  have "rotate_proxy (stale_manager\<lparr>current_proxy_index := 0\<rparr>) =
      (stale_manager\<lparr>current_proxy_index := 0\<rparr>\<lparr>current_proxy_index := (0 + 1) mod 2\<rparr>,
       Some (working_refs (proxies stale_manager) ! ((0 + 1) mod 2)))"
    using rotate_proxy_advance [of "stale_manager\<lparr>current_proxy_index := 0\<rparr>" 2]
    by (simp add: s)
  then show ?thesis using g r by (simp add: rotate_def s)
qed

subsection \<open>ProxyManager: the best proxy\<close>

lemma py_max_key_mem: "py_max_key key b xs \<in> insert b (set xs)"
  by (induction xs arbitrary: b) (auto split: if_splits)

lemma py_max_key_ge_best: "key b \<le> key (py_max_key key b xs)"
proof (induction xs arbitrary: b)
  case Nil
  then show ?case by simp
next
  case (Cons x xs)
  show ?case
  proof (cases "key x > key b")
    case True
    have "key b \<le> key x" using True by simp
    also have "key x \<le> key (py_max_key key x xs)" by (rule Cons.IH)
    finally show ?thesis using True by simp
  next
    case False
    then show ?thesis using Cons.IH [of b] by simp
  qed
qed

lemma py_max_key_ge_all: "x \<in> set xs \<Longrightarrow> key x \<le> key (py_max_key key b xs)"
proof (induction xs arbitrary: b)
  case Nil
  then show ?case by simp
next
  case (Cons y ys)
  show ?case
  proof (cases "x = y")
    case True
    show ?thesis
    proof (cases "key y > key b")
      case gt: True
      then show ?thesis using True py_max_key_ge_best [of key y ys] by simp
    next
      case le: False
      then have "key y \<le> key b" by simp
      also have "key b \<le> key (py_max_key key b ys)" by (rule py_max_key_ge_best)
      finally show ?thesis using True le by simp
    qed
  next
    case False
    then have "x \<in> set ys" using Cons.prems by simp
    then show ?thesis using Cons.IH by simp
  qed
qed

lemma py_max_key_first:
  "(py_max_key key b xs = b \<and> (\<forall>x \<in> set xs. key x \<le> key b)) \<or>
   (\<exists>i < length xs. py_max_key key b xs = xs ! i \<and> key b < key (xs ! i) \<and>
       (\<forall>j < i. key (xs ! j) < key (xs ! i)))"
proof (induction xs arbitrary: b)
  case Nil
  then show ?case by simp
next
  case (Cons x xs)
  show ?case
  proof (cases "key x > key b")
    case True
    from Cons.IH [of x] show ?thesis
    proof
      assume a: "py_max_key key x xs = x \<and> (\<forall>y \<in> set xs. key y \<le> key x)"
      have "0 < length (x # xs) \<and> py_max_key key b (x # xs) = (x # xs) ! 0 \<and>
            key b < key ((x # xs) ! 0) \<and> (\<forall>j < 0. key ((x # xs) ! j) < key ((x # xs) ! 0))"
        using a True by simp
      then show ?thesis by blast
    next
      assume "\<exists>i < length xs. py_max_key key x xs = xs ! i \<and> key x < key (xs ! i) \<and>
                (\<forall>j < i. key (xs ! j) < key (xs ! i))"
      then obtain i where i: "i < length xs" "py_max_key key x xs = xs ! i"
        "key x < key (xs ! i)" "\<forall>j < i. key (xs ! j) < key (xs ! i)" by blast
      have "\<forall>j < Suc i. key ((x # xs) ! j) < key (xs ! i)"
      proof (intro allI impI)
        fix j assume "j < Suc i"
        then show "key ((x # xs) ! j) < key (xs ! i)"
          using i(3,4) by (cases j) auto
      qed
      then have "Suc i < length (x # xs) \<and> py_max_key key b (x # xs) = (x # xs) ! Suc i \<and>
            key b < key ((x # xs) ! Suc i) \<and>
            (\<forall>j < Suc i. key ((x # xs) ! j) < key ((x # xs) ! Suc i))"
        using i True by auto
      then show ?thesis by blast
    qed
  next
    case False
    from Cons.IH [of b] show ?thesis
    proof
      assume "py_max_key key b xs = b \<and> (\<forall>y \<in> set xs. key y \<le> key b)"
      then show ?thesis using False by auto
    next
      assume "\<exists>i < length xs. py_max_key key b xs = xs ! i \<and> key b < key (xs ! i) \<and>
                (\<forall>j < i. key (xs ! j) < key (xs ! i))"
      then obtain i where i: "i < length xs" "py_max_key key b xs = xs ! i"
        "key b < key (xs ! i)" "\<forall>j < i. key (xs ! j) < key (xs ! i)" by blast
      have "\<forall>j < Suc i. key ((x # xs) ! j) < key (xs ! i)"
      proof (intro allI impI)
        fix j assume "j < Suc i"
        then show "key ((x # xs) ! j) < key (xs ! i)"
          using i(3,4) False by (cases j) auto
      qed
      then have "Suc i < length (x # xs) \<and> py_max_key key b (x # xs) = (x # xs) ! Suc i \<and>
            key b < key ((x # xs) ! Suc i) \<and>
            (\<forall>j < Suc i. key ((x # xs) ! j) < key ((x # xs) ! Suc i))"
        using i False by auto
      then show ?thesis by blast
    qed
  qed
qed

lemma py_max_key_first_max: "\<exists>i. first_max_at key (p # ps) i \<and> py_max_key key p ps = (p # ps) ! i"
proof -
  have ge: "\<forall>x \<in> set (p # ps). key x \<le> key (py_max_key key p ps)"
    using py_max_key_ge_best [of key p ps] py_max_key_ge_all [of _ ps key p] by auto
  from py_max_key_first [of key p ps] show ?thesis
  proof
    assume "py_max_key key p ps = p \<and> (\<forall>x \<in> set ps. key x \<le> key p)"
    then have "first_max_at key (p # ps) 0 \<and> py_max_key key p ps = (p # ps) ! 0"
      by (simp add: first_max_at_def)
    then show ?thesis by blast
  next
    assume "\<exists>i < length ps. py_max_key key p ps = ps ! i \<and> key p < key (ps ! i) \<and>
                (\<forall>j < i. key (ps ! j) < key (ps ! i))"
    then obtain i where i: "i < length ps" "py_max_key key p ps = ps ! i"
        "key p < key (ps ! i)" "\<forall>j < i. key (ps ! j) < key (ps ! i)" by blast
    have "\<forall>j < Suc i. key ((p # ps) ! j) < key (ps ! i)"
    proof (intro allI impI)
      fix j assume "j < Suc i"
      then show "key ((p # ps) ! j) < key (ps ! i)"
        using i(3,4) by (cases j) auto
    qed
    then have "first_max_at key (p # ps) (Suc i) \<and> py_max_key key p ps = (p # ps) ! Suc i"
      using i ge unfolding first_max_at_def by simp
    then show ?thesis by blast
  qed
qed

lemma floor_rat_numeral: "\<lfloor>(numeral a :: rat) / numeral b\<rfloor> = numeral a div numeral b"
  using floor_divide_of_int_eq [of "numeral a" "numeral b", where ?'a = rat] by simp

lemma binade_numeral:
  "binade (numeral k) a e =
     (if a < 1 then binade (pred_numeral k) (2 * a) (e - 1)
      else if 2 \<le> a then binade (pred_numeral k) (a / 2) (e + 1)
      else e)"
  by (simp add: numeral_eq_Suc)

lemma round_double_half: "round_double (1 / 2) = 1 / 2"
  unfolding round_double_def Let_def
  apply (simp add: binade_numeral)
  apply (simp add: pow2_def)
  apply (simp add: round_half_even_def floor_rat_numeral Let_def)
  done

lemma round_double_quarter: "round_double (1 / 4) = 1 / 4"
  unfolding round_double_def Let_def
  apply (simp add: binade_numeral)
  apply (simp add: pow2_def)
  apply (simp add: round_half_even_def floor_rat_numeral Let_def)
  done

lemma round_double_one: "round_double 1 = 1"
  unfolding round_double_def Let_def
  apply (simp add: binade_numeral)
  apply (simp add: pow2_def)
  apply (simp add: round_half_even_def floor_rat_numeral Let_def)
  done

lemma round_double_3_10: "round_double (3 / 10) = 5404319552844595 / 18014398509481984"
  unfolding round_double_def Let_def
  apply (simp add: binade_numeral)
  apply (simp add: pow2_def)
  apply (simp add: round_half_even_def floor_rat_numeral Let_def)
  done

lemma round_double_7_10: "round_double (7 / 10) = 6305039478318694 / 9007199254740992"
  unfolding round_double_def Let_def
  apply (simp add: binade_numeral)
  apply (simp add: pow2_def)
  apply (simp add: round_half_even_def floor_rat_numeral Let_def)
  done

lemma round_double_steady:
  "round_double (5404319552844595 / 18014398509481984) = 5404319552844595 / 18014398509481984"
  unfolding round_double_def Let_def
  apply (simp add: binade_numeral)
  apply (simp add: pow2_def)
  apply (simp add: round_half_even_def floor_rat_numeral Let_def)
  done

lemma round_double_slow:
  "round_double (1351079888211149 / 4503599627370496) = 1351079888211149 / 4503599627370496"
  unfolding round_double_def Let_def
  apply (simp add: binade_numeral)
  apply (simp add: pow2_def)
  apply (simp add: round_half_even_def floor_rat_numeral Let_def)
  done

lemma calculate_score_steady: "calculate_score steady_proxy = 5404319552844595 / 18014398509481984"
  by (simp add: calculate_score_def steady_proxy_def round_double_3_10 round_double_steady
        round_double_def [of 0])

lemma calculate_score_slow: "calculate_score slow_proxy = 5404319552844596 / 18014398509481984"
  by (simp add: calculate_score_def slow_proxy_def round_double_one round_double_7_10
        round_double_slow)

lemma calculate_score_tested: "calculate_score tested_proxy = 1 / 4"
  by (simp add: calculate_score_def tested_proxy_def round_double_half round_double_quarter)

text \<open>
  Claim C9, amended. \<^verbatim>\<open>get_best_proxy()\<close> returns \<open>None\<close> exactly when no proxy is
  working; otherwise it returns the first working proxy, in pool order, whose score is
  maximal, where the score of a proxy without any recorded request is the neutral 1/2
  and the score of any other proxy is, in float arithmetic, its success rate minus
  \<open>min (avg_response_time / 10) 1\<close>.
\<close>

theorem get_best_proxy_first_max:
  "(get_best_proxy pm = None \<longleftrightarrow> get_working_proxies pm = []) \<and>
   (get_working_proxies pm \<noteq> [] \<longrightarrow>
      (\<exists>i. first_max_at calculate_score (get_working_proxies pm) i \<and>
           get_best_proxy pm = Some (get_working_proxies pm ! i))) \<and>
   calculate_score p =
     (if success_count p + failure_count p = 0 then 1 / 2
      else round_double
             (round_double (of_int (success_count p) / of_int (success_count p + failure_count p))
                - min (round_double (avg_response_time p / 10)) 1))"
proof (intro conjI impI)
  show "get_best_proxy pm = None \<longleftrightarrow> get_working_proxies pm = []"
    by (simp add: get_best_proxy_def split: list.splits)
next
  assume "get_working_proxies pm \<noteq> []"
  then obtain q qs where w: "get_working_proxies pm = q # qs" by (cases "get_working_proxies pm") auto
  from py_max_key_first_max [of calculate_score q qs]
  show "\<exists>i. first_max_at calculate_score (get_working_proxies pm) i \<and>
           get_best_proxy pm = Some (get_working_proxies pm ! i)"
    by (simp add: get_best_proxy_def w)
next
  show "calculate_score p =
     (if success_count p + failure_count p = 0 then 1 / 2
      else round_double
             (round_double (of_int (success_count p) / of_int (success_count p + failure_count p))
                - min (round_double (avg_response_time p / 10)) 1))"
    by (simp add: calculate_score_def Let_def)
qed

text \<open>
  Claim C9, amended, at a pool of two proxies whose scores are both 0.3 in exact
  arithmetic. As floats they differ in the last bit: three successes in ten requests
  score \<^verbatim>\<open>0.3\<close>, one success in one request at seven seconds scores
  \<^verbatim>\<open>1.0 - 0.7 = 0.30000000000000004\<close>, and the second proxy is returned.
\<close>

theorem get_best_proxy_first_max_witness:
  "get_working_proxies close_scores = [steady_proxy, slow_proxy] \<and>
   calculate_score steady_proxy = 5404319552844595 / 18014398509481984 \<and>
   calculate_score slow_proxy = 5404319552844596 / 18014398509481984 \<and>
   first_max_at calculate_score (get_working_proxies close_scores) 1 \<and>
   get_best_proxy close_scores = Some slow_proxy"
proof -
  have w: "get_working_proxies close_scores = [steady_proxy, slow_proxy]"
    by (simp add: get_working_proxies_def close_scores_def steady_proxy_def slow_proxy_def)
  from get_best_proxy_first_max [of close_scores steady_proxy]
  obtain i where i: "first_max_at calculate_score [steady_proxy, slow_proxy] i"
    "get_best_proxy close_scores = Some ([steady_proxy, slow_proxy] ! i)"
    unfolding w by auto
  have "i < 2" using i(1) by (simp add: first_max_at_def)
  moreover have "i \<noteq> 0"
  proof
    assume "i = 0"
    then have "calculate_score slow_proxy \<le> calculate_score steady_proxy"
      using i(1) by (simp add: first_max_at_def)
    then show False by (simp add: calculate_score_steady calculate_score_slow)
  qed
  ultimately have "i = 1" by simp
  then show ?thesis using i w by (simp add: calculate_score_steady calculate_score_slow)
qed

text \<open>
  Claim C9 as stated fails on a pool with an untested proxy. The claimed score divides
  by the number of requests, which is 0 for the untested proxy: it has no claimed
  score, and the only proxy that has one is the tested proxy, at 0.25. The code scores
  the untested proxy 0.5 and returns it.
\<close>

theorem get_best_proxy_untested_counterexample:
  "get_working_proxies untested_first = [untested_proxy, tested_proxy] \<and>
   get_best_proxy untested_first = Some untested_proxy \<and>
   success_count untested_proxy + failure_count untested_proxy = 0 \<and>
   spec_score untested_proxy = None \<and> spec_score tested_proxy = Some (1 / 4) \<and>
   calculate_score untested_proxy = 1 / 2 \<and> calculate_score tested_proxy = 1 / 4"
proof -
  have u: "calculate_score untested_proxy = 1 / 2"
    by (simp add: calculate_score_def untested_proxy_def)
  have s: "spec_score untested_proxy = None" "spec_score tested_proxy = Some (1 / 4)"
    by (simp_all add: spec_score_def untested_proxy_def tested_proxy_def
          round_double_half round_double_quarter)
  have w: "get_working_proxies untested_first = [untested_proxy, tested_proxy]"
    by (simp add: get_working_proxies_def untested_first_def untested_proxy_def tested_proxy_def)
  have "get_best_proxy untested_first = Some untested_proxy"
    by (simp add: get_best_proxy_def w u calculate_score_tested)
  then show ?thesis using w u s calculate_score_tested by (simp add: untested_proxy_def)
qed

subsection \<open>AntiDetection: detection and confidence\<close>

lemma captcha_text_lower: "lower ''Please solve the CAPTCHA'' = ''please solve the captcha''"
  by (simp add: lower_def lower_char_def)

lemma scan_captcha_page: "scan_page captcha_page = ([''captcha''], None)"
  by (simp add: scan_page_def captcha_page_def captcha_text_lower
        bot_indicators_def captcha_selectors_def lower_def lower_char_def)










subsection \<open>IMDbScraper: exhausted navigation\<close>

lemma captcha_page_detected: "detected (check_for_bot_detection captcha_page)"
  by (simp add: check_for_bot_detection_def scan_captcha_page)

lemma upt_0_3: "[0..<3] = [0, 1, 2]"
  by (simp add: upt_rec)

text \<open>
  While every visit is answered by a page on which detection strikes, a scraper without
  proxy manager gives up with \<open>False\<close> and with its counters untouched, whatever the
  retry budget.
\<close>

lemma navigate_attempts_all_blocked:
  assumes "scraper_proxy_manager s = None"
    and "\<And>k. \<exists>page restart. env k = PageLoaded page restart \<and> detected (check_for_bot_detection page)"
  shows "navigate_attempts s retries env pending = (False, s)"
proof (induction pending)
  case Nil
  show ?case by simp
next
  case (Cons attempt pending)
  obtain page restart where "env attempt = PageLoaded page restart"
    "detected (check_for_bot_detection page)" using assms(2) by blast
  then show ?case using assms(1) Cons.IH by simp
qed

text \<open>
  Claim C5 at its failing input. With the default budget of three attempts and no proxy
  manager, a site that answers every visit with a CAPTCHA page makes
  \<^verbatim>\<open>navigate_to_page\<close> return \<open>False\<close> with the error counter still at 0: the
  \<^verbatim>\<open>return False\<close> of the detection branch does not count the failure. The sibling
  path does: when every visit raises, the result is \<open>False\<close> and the counter is 1.
\<close>

theorem navigate_to_page_blocked_errors_unchanged:
  "navigate_to_page (new_scraper None) ''https://www.imdb.com/title/tt0111161/'' 3 blocking_site
     = (False, new_scraper None) \<and>
   errors (scraping_stats (new_scraper None)) = 0 \<and>
   navigate_to_page (new_scraper None) ''https://www.imdb.com/title/tt0111161/'' 3 unreachable_site
     = (False, (new_scraper None)\<lparr>scraping_stats :=
          (scraping_stats (new_scraper None))\<lparr>errors := 1\<rparr>\<rparr>)"
  by (simp add: navigate_to_page_def upt_0_3 blocking_site_def unreachable_site_def
        captcha_page_detected new_scraper_def)

subsection \<open>MediaDownloader: the settings stay in range\<close>

lemma configure_preserves:
  "settings_in_range d \<Longrightarrow> settings_in_range (configure_download_settings d cd dt mfs ra)"
  by (simp add: settings_in_range_def configure_download_settings_def Let_def split: option.splits)

lemma configured_in_range: "configured d \<Longrightarrow> settings_in_range d"
proof (induction rule: configured.induct)
  case (fresh pm)
  show ?case by (simp add: settings_in_range_def new_media_downloader_def)
next
  case (stats d s pm)
  then show ?case by (simp add: settings_in_range_def)
next
  case (conf d cd dt mfs ra)
  from conf.IH show ?case by (rule configure_preserves)
qed

text \<open>
  Claim C10. After any call of \<^verbatim>\<open>configure_download_settings\<close> on a downloader that
  was created by the constructor and changed by its own methods only, whatever the
  arguments, the settings satisfy \<open>1 \<le> concurrent_downloads \<le> 20\<close>,
  \<open>10 \<le> download_timeout \<le> 300\<close>, \<open>1 MiB \<le> max_file_size \<le> 1 GiB\<close> and
  \<open>1 \<le> retry_attempts \<le> 10\<close>; a supplied value outside its range is replaced by the
  nearest bound, and an omitted argument leaves its setting unchanged.
\<close>

theorem configure_download_settings_invariant:
  assumes "configured d"
  shows "settings_in_range (configure_download_settings d cd dt mfs ra) \<and>
    concurrent_downloads (configure_download_settings d cd dt mfs ra) =
      (case cd of None \<Rightarrow> concurrent_downloads d
       | Some v \<Rightarrow> if v < 1 then 1 else if 20 < v then 20 else v) \<and>
    download_timeout (configure_download_settings d cd dt mfs ra) =
      (case dt of None \<Rightarrow> download_timeout d
       | Some v \<Rightarrow> if v < 10 then 10 else if 300 < v then 300 else v) \<and>
    max_file_size (configure_download_settings d cd dt mfs ra) =
      (case mfs of None \<Rightarrow> max_file_size d
       | Some v \<Rightarrow> if v < 1048576 then 1048576 else if 1073741824 < v then 1073741824 else v) \<and>
    retry_attempts (configure_download_settings d cd dt mfs ra) =
      (case ra of None \<Rightarrow> retry_attempts d
       | Some v \<Rightarrow> if v < 1 then 1 else if 10 < v then 10 else v)"
proof -
  have "settings_in_range d" using assms by (rule configured_in_range)
  then have 1: "settings_in_range (configure_download_settings d cd dt mfs ra)"
    by (rule configure_preserves)
  have 2: "concurrent_downloads (configure_download_settings d cd dt mfs ra) =
      (case cd of None \<Rightarrow> concurrent_downloads d
       | Some v \<Rightarrow> if v < 1 then 1 else if 20 < v then 20 else v)"
    by (simp add: configure_download_settings_def Let_def split: option.splits)
  have 3: "download_timeout (configure_download_settings d cd dt mfs ra) =
      (case dt of None \<Rightarrow> download_timeout d
       | Some v \<Rightarrow> if v < 10 then 10 else if 300 < v then 300 else v)"
    by (simp add: configure_download_settings_def Let_def split: option.splits)
  have 4: "max_file_size (configure_download_settings d cd dt mfs ra) =
      (case mfs of None \<Rightarrow> max_file_size d
       | Some v \<Rightarrow> if v < 1048576 then 1048576 else if 1073741824 < v then 1073741824 else v)"
    by (simp add: configure_download_settings_def Let_def split: option.splits)
  have 5: "retry_attempts (configure_download_settings d cd dt mfs ra) =
      (case ra of None \<Rightarrow> retry_attempts d
       | Some v \<Rightarrow> if v < 1 then 1 else if 10 < v then 10 else v)"
    by (simp add: configure_download_settings_def Let_def split: option.splits)
  show ?thesis using 1 2 3 4 5 by blast
qed

text \<open>
  Claim C10, at a fresh downloader configured with 100 concurrent downloads, a maximal
  file size of 5 bytes and 0 retry attempts: the values stored are 20, 1 MiB and 1, and
  the omitted timeout keeps its default of 30.
\<close>

theorem configure_download_settings_invariant_witness:
  "configured (new_media_downloader None) \<and>
   settings_in_range
     (configure_download_settings (new_media_downloader None) (Some 100) None (Some 5) (Some 0)) \<and>
   concurrent_downloads
     (configure_download_settings (new_media_downloader None) (Some 100) None (Some 5) (Some 0)) = 20 \<and>
   download_timeout
     (configure_download_settings (new_media_downloader None) (Some 100) None (Some 5) (Some 0)) = 30 \<and>
   max_file_size
     (configure_download_settings (new_media_downloader None) (Some 100) None (Some 5) (Some 0)) = 1048576 \<and>
   retry_attempts
     (configure_download_settings (new_media_downloader None) (Some 100) None (Some 5) (Some 0)) = 1"
proof -
  have c: "configured (new_media_downloader None)" by (rule configured.fresh)
  show ?thesis
    using c configure_download_settings_invariant [OF c, of "Some 100" None "Some 5" "Some 0"]
    by (simp add: new_media_downloader_def)
qed

subsection \<open>MediaDownloader: retries and backoff\<close>

lemma sleeps_append: "sleeps (xs @ ys) = sleeps xs @ sleeps ys"
  by (induction xs rule: sleeps.induct) simp_all

lemma attempt_download_frame:
  assumes "attempt_download L d target w fi = (r, d1, w1, fi1)"
  shows "retry_attempts d1 = retry_attempts d \<and> max_file_size d1 = max_file_size d \<and>
         download_stats d1 = download_stats d \<and>
         requests w1 = requests w + 1 \<and> sleeps (trace w1) = sleeps (trace w) \<and>
         net w1 = net w \<and> files w1 = files w \<and> write_error w1 = write_error w"
  using assms unfolding attempt_download_def Let_def
  by (auto simp: emit_def read_clock_def sleeps_append
        split: http_outcome.splits if_splits option.splits sum.splits prod.splits)

lemma fail_current_proxy_frame:
  "retry_attempts (fail_current_proxy d) = retry_attempts d \<and>
   max_file_size (fail_current_proxy d) = max_file_size d \<and>
   download_stats (fail_current_proxy d) = download_stats d"
  by (simp add: fail_current_proxy_def split: option.splits prod.splits)

lemma download_attempts_sleeps:
  assumes "download_attempts L target pending d w fi = (res, d', w')"
  shows "\<exists>m \<le> length pending.
           sleeps (trace w') = sleeps (trace w) @ map (\<lambda>k. 2 ^ k) (take m pending) \<and>
           retry_attempts d' = retry_attempts d \<and>
           requests w' = requests w + attempts_made res m \<and>
           (case res of
              Raised e \<Rightarrow> m < length pending \<and> int (pending ! m) = retry_attempts d - 1
            | Returned None fi' \<Rightarrow> m = length pending \<and> (\<forall>a \<in> set pending. int a \<noteq> retry_attempts d - 1)
            | Returned (Some file_data) fi' \<Rightarrow> m < length pending)"
  using assms
proof (induction pending arbitrary: d w fi)
  case Nil
  then show ?case by (auto simp: attempts_made_def)
next
  case (Cons attempt pending)
  obtain r d1 w1 fi1 where a: "attempt_download L d target w fi = (r, d1, w1, fi1)"
    by (metis prod_cases4)
  note fr = attempt_download_frame [OF a]
  show ?case
  proof (cases r)
    case (Inr file_data)
    then have "res = Returned (Some file_data) fi1" "w' = w1" "d' = d1"
      using Cons.prems a by simp_all
    then have "0 \<le> length (attempt # pending) \<and>
           sleeps (trace w') = sleeps (trace w) @ map (\<lambda>k. 2 ^ k) (take 0 (attempt # pending)) \<and>
           retry_attempts d' = retry_attempts d \<and>
           requests w' = requests w + attempts_made res 0 \<and>
           (case res of
              Raised e \<Rightarrow> 0 < length (attempt # pending) \<and> int ((attempt # pending) ! 0) = retry_attempts d - 1
            | Returned None fi' \<Rightarrow> 0 = length (attempt # pending) \<and> (\<forall>a \<in> set (attempt # pending). int a \<noteq> retry_attempts d - 1)
            | Returned (Some file_data) fi' \<Rightarrow> 0 < length (attempt # pending))"
      using fr by (simp add: attempts_made_def)
    then show ?thesis by blast
  next
    case (Inl e)
    let ?d2 = "fail_current_proxy d1"
    have rd2: "retry_attempts ?d2 = retry_attempts d"
      using fr fail_current_proxy_frame [of d1] by simp
    show ?thesis
    proof (cases "int attempt = retry_attempts d - 1")
      case True
      then have "res = Raised e" "w' = w1" "d' = ?d2"
        using Cons.prems a Inl rd2 by (simp_all add: Let_def)
      then have "0 \<le> length (attempt # pending) \<and>
           sleeps (trace w') = sleeps (trace w) @ map (\<lambda>k. 2 ^ k) (take 0 (attempt # pending)) \<and>
           retry_attempts d' = retry_attempts d \<and>
           requests w' = requests w + attempts_made res 0 \<and>
           (case res of
              Raised e \<Rightarrow> 0 < length (attempt # pending) \<and> int ((attempt # pending) ! 0) = retry_attempts d - 1
            | Returned None fi' \<Rightarrow> 0 = length (attempt # pending) \<and> (\<forall>a \<in> set (attempt # pending). int a \<noteq> retry_attempts d - 1)
            | Returned (Some file_data) fi' \<Rightarrow> 0 < length (attempt # pending))"
        using fr rd2 True by (simp add: attempts_made_def)
      then show ?thesis by blast
    next
      case False
      let ?w2 = "emit (Sleep (2 ^ attempt)) w1"
      have rec: "download_attempts L target pending ?d2 ?w2 fi1 = (res, d', w')"
        using Cons.prems a Inl rd2 False by (simp add: Let_def)
      from Cons.IH [OF rec] obtain m where m: "m \<le> length pending"
        "sleeps (trace w') = sleeps (trace ?w2) @ map (\<lambda>k. 2 ^ k) (take m pending)"
        "retry_attempts d' = retry_attempts ?d2"
        "requests w' = requests ?w2 + attempts_made res m"
        "(case res of
              Raised e \<Rightarrow> m < length pending \<and> int (pending ! m) = retry_attempts ?d2 - 1
            | Returned None fi' \<Rightarrow> m = length pending \<and> (\<forall>a \<in> set pending. int a \<noteq> retry_attempts ?d2 - 1)
            | Returned (Some file_data) fi' \<Rightarrow> m < length pending)"
        by blast
      have s2: "sleeps (trace ?w2) = sleeps (trace w) @ [2 ^ attempt]"
        using fr by (simp add: emit_def sleeps_append)
      have q2: "requests ?w2 = requests w + 1" using fr by (simp add: emit_def)
      have am: "attempts_made res (Suc m) = attempts_made res m + 1"
        by (simp add: attempts_made_def split: fetch_result.splits option.splits)
      have "Suc m \<le> length (attempt # pending) \<and>
           sleeps (trace w') = sleeps (trace w) @ map (\<lambda>k. 2 ^ k) (take (Suc m) (attempt # pending)) \<and>
           retry_attempts d' = retry_attempts d \<and>
           requests w' = requests w + attempts_made res (Suc m) \<and>
           (case res of
              Raised e \<Rightarrow> Suc m < length (attempt # pending) \<and> int ((attempt # pending) ! Suc m) = retry_attempts d - 1
            | Returned None fi' \<Rightarrow> Suc m = length (attempt # pending) \<and> (\<forall>a \<in> set (attempt # pending). int a \<noteq> retry_attempts d - 1)
            | Returned (Some file_data) fi' \<Rightarrow> Suc m < length (attempt # pending))"
        using m s2 q2 am rd2 False
        by (simp split: fetch_result.splits option.splits)
      then show ?thesis by blast
    qed
  qed
qed

lemma pow2_strict_mono: "sorted_wrt (<) (map (\<lambda>k. (2::int) ^ k) [0..<m])"
  by (simp add: sorted_wrt_map sorted_wrt_iff_nth_less)

text \<open>
  Claim C8. In a run of \<^verbatim>\<open>_download_file_data\<close> the sleeps are, in order, \<open>2 ^ 0\<close>,
  \<open>2 ^ 1\<close>, ..., \<open>2 ^ (m - 1)\<close> seconds, where \<open>m\<close> is the number of failed attempts
  that were not the last one: one request is issued per attempt, \<open>m\<close> is at most
  \<open>retry_attempts - 1\<close>, and exactly that when the run ends by re-raising. The delay
  after failed attempt \<open>k\<close> is \<open>2 ^ k\<close>, and the delays increase strictly.
\<close>

theorem download_file_data_backoff:
  assumes "download_file_data L d target w = (res, d', w')"
  shows "\<exists>m. sleeps (trace w') = sleeps (trace w) @ map (\<lambda>k. 2 ^ k) [0..<m] \<and>
             int m \<le> max 0 (retry_attempts d - 1) \<and>
             requests w' = requests w + attempts_made res m \<and>
             ((\<exists>e. res = Raised e) \<longrightarrow> int m = retry_attempts d - 1) \<and>
             sorted_wrt (<) (map (\<lambda>k. (2::int) ^ k) [0..<m]) \<and>
             (\<forall>k < m. map (\<lambda>k. (2::int) ^ k) [0..<m] ! k = 2 ^ k)"
proof -
  let ?n = "nat (retry_attempts d)"
  have run: "download_attempts L target [0..<?n] d w
       \<lparr>extension = None, content_type = None, content_length = None\<rparr> = (res, d', w')"
    using assms by (simp add: download_file_data_def)
  from download_attempts_sleeps [OF run] obtain m where m0: "m \<le> length [0..<?n]"
    "sleeps (trace w') = sleeps (trace w) @ map (\<lambda>k. 2 ^ k) (take m [0..<?n])"
    "retry_attempts d' = retry_attempts d"
    "requests w' = requests w + attempts_made res m"
    "(case res of
        Raised e \<Rightarrow> m < length [0..<?n] \<and> int ([0..<?n] ! m) = retry_attempts d - 1
      | Returned None fi' \<Rightarrow> m = length [0..<?n] \<and> (\<forall>a \<in> set [0..<?n]. int a \<noteq> retry_attempts d - 1)
      | Returned (Some file_data) fi' \<Rightarrow> m < length [0..<?n])"
    by blast
  have mn: "m \<le> ?n" using m0(1) by simp
  have tk: "take m [0..<?n] = [0..<m]" using mn by (simp add: take_upt)
  have R: "m < ?n \<and> int m = retry_attempts d - 1" if "res = Raised e" for e
    using m0(5) that by auto
  have N: "m = ?n \<and> (\<forall>a \<in> set [0..<?n]. int a \<noteq> retry_attempts d - 1)"
    if "res = Returned None fi'" for fi'
    using m0(5) that by auto
  have S: "m < ?n" if "res = Returned (Some x) fi'" for x fi'
    using m0(5) that by auto
  have bound: "int m \<le> max 0 (retry_attempts d - 1)"
  proof (cases res)
    case (Raised e)
    then show ?thesis using R by simp
  next
    case (Returned file_data fi')
    show ?thesis
    proof (cases file_data)
      case None
      then have all: "m = ?n" "\<forall>a \<in> set [0..<?n]. int a \<noteq> retry_attempts d - 1"
        using N Returned by simp_all
      have "?n = 0"
      proof (rule ccontr)
        assume "?n \<noteq> 0"
        then have "?n - 1 \<in> set [0..<?n]" "int (?n - 1) = retry_attempts d - 1" by auto
        then show False using all(2) by blast
      qed
      then show ?thesis using all(1) by simp
    next
      case (Some x)
      then have "m < ?n" using S Returned by simp
      then show ?thesis by simp
    qed
  qed
  have raised: "(\<exists>e. res = Raised e) \<longrightarrow> int m = retry_attempts d - 1"
    using R by auto
  have nth: "\<forall>k < m. map (\<lambda>k. (2::int) ^ k) [0..<m] ! k = 2 ^ k" by simp
  show ?thesis
    using m0(2,4) tk bound raised pow2_strict_mono [of m] nth by auto
qed

text \<open>Values of the library functions and of the parsers at the example.\<close>

lemma example_url_valid: "is_valid_url example_lib ''http://x/img.jpg''"
  by (simp add: is_valid_url_def example_lib_def)

lemma example_extension: "get_file_extension example_lib ''http://x/img.jpg'' ct = ''.jpg''"
  by (simp add: get_file_extension_def example_lib_def lower_def lower_char_def)

lemma py_int_50: "py_int ''50'' = Some 50"
  by (simp add: py_int_def digit_of_def)

lemma py_int_oversized: "py_int ''104857601'' = Some 104857601"
  by (simp add: py_int_def digit_of_def)

lemma str_int_7: "str_int 7 = ''7''"
  by (simp add: str_int_def digit_char_def)

lemma str_int_oversized: "str_int 104857601 = ''104857601''"
  by (simp add: str_int_def digit_char_def)

lemma example_lib_fields:
  "md5_hexdigest example_lib data = ''5c9597f3c8245907ea71a89d9d39d08e''"
  "guess_type example_lib n = Some ''image/jpeg''"
  "downloads_dir example_lib = ''data/downloads''"
  "splitext_ext example_lib s = ''.jpg''"
  by (simp_all add: example_lib_def)

lemma download_file_data_oversized:
  assumes d: "proxy_manager d = None" "max_file_size d = 104857600" "retry_attempts d = 3"
    and w: "net w = (\<lambda>n. Response (small_image\<lparr>resp_content_length := Some ''104857601''\<rparr>))"
  shows "download_file_data example_lib d ''http://x/img.jpg'' w =
    (Raised (ValueError ''File too large: 104857601 bytes''),
     d\<lparr>proxy_manager := None\<rparr>,
     w\<lparr>requests := requests w + 3,
       trace := trace w @ [HttpGet ''http://x/img.jpg'' None, Sleep 1,
                           HttpGet ''http://x/img.jpg'' None, Sleep 2,
                           HttpGet ''http://x/img.jpg'' None]\<rparr>)"
  by (simp add: download_file_data_def upt_0_3 attempt_download_def small_image_def truthy_def
        py_int_oversized str_int_oversized example_extension fail_current_proxy_def emit_def
        Let_def d w)

text \<open>
  Claim C8, at the world whose responses all declare too many bytes: with three
  attempts the run re-raises after sleeping 1 and then 2 seconds.
\<close>

theorem download_file_data_backoff_witness:
  "download_file_data example_lib (new_media_downloader None) ''http://x/img.jpg'' oversized_world =
     (Raised (ValueError ''File too large: 104857601 bytes''),
      new_media_downloader None,
      oversized_world\<lparr>requests := 3,
        trace := [HttpGet ''http://x/img.jpg'' None, Sleep 1,
                  HttpGet ''http://x/img.jpg'' None, Sleep 2,
                  HttpGet ''http://x/img.jpg'' None]\<rparr>) \<and>
   sleeps (trace (oversized_world\<lparr>requests := 3,
        trace := [HttpGet ''http://x/img.jpg'' None, Sleep 1,
                  HttpGet ''http://x/img.jpg'' None, Sleep 2,
                  HttpGet ''http://x/img.jpg'' None]\<rparr>)) = [2 ^ 0, 2 ^ 1]"
proof -
  let ?w' = "oversized_world\<lparr>requests := 3,
        trace := [HttpGet ''http://x/img.jpg'' None, Sleep 1,
                  HttpGet ''http://x/img.jpg'' None, Sleep 2,
                  HttpGet ''http://x/img.jpg'' None]\<rparr>"
  have run: "download_file_data example_lib (new_media_downloader None) ''http://x/img.jpg'' oversized_world =
     (Raised (ValueError ''File too large: 104857601 bytes''), new_media_downloader None, ?w')"
    by (subst download_file_data_oversized)
       (simp_all add: new_media_downloader_def oversized_world_def serving_world_def)
  from download_file_data_backoff [OF run] obtain m where
    m: "sleeps (trace ?w') = sleeps (trace oversized_world) @ map (\<lambda>k. 2 ^ k) [0..<m]"
       "int m = retry_attempts (new_media_downloader None) - 1"
    by blast
  have "m = 2" using m(2) by (simp add: new_media_downloader_def)
  then have "sleeps (trace ?w') = [2 ^ 0, 2 ^ 1]"
    using m(1) by (simp add: oversized_world_def serving_world_def upt_rec)
  then show ?thesis using run by simp
qed

subsection \<open>MediaDownloader: repeated and oversized downloads\<close>

text \<open>
  The name the downloader looks for starts with \<^verbatim>\<open>movie_\<close>; the name the storage
  service writes starts with the clock reading. Unless a reading starts with the letter
  m, no file written by \<^verbatim>\<open>save_downloaded_media\<close> is ever found by the check.
\<close>

lemma looked_up_name_is_never_written:
  assumes "clock w' (clock_reads w') \<noteq> []" "hd (clock w' (clock_reads w')) \<noteq> CHR ''m''"
  shows "fst (generate_filename L w target mid ftype qual) \<noteq> fst (generate_safe_filename w' original)"
proof -
  have 1: "hd (fst (generate_filename L w target mid ftype qual)) = CHR ''m''"
    by (simp add: generate_filename_def read_clock_def Let_def)
  have 2: "hd (fst (generate_safe_filename w' original)) = hd (clock w' (clock_reads w'))"
    using assms(1) by (simp add: generate_safe_filename_def read_clock_def Let_def)
  show ?thesis using 1 2 assms(2) by metis
qed

lemma download_media_file_fetches:
  assumes d: "proxy_manager d = None" "max_file_size d = 104857600" "retry_attempts d = 3"
    and w: "net w = (\<lambda>n. Response small_image)" "clock w = (\<lambda>n. ''20240101_120000'')"
      "write_error w = (\<lambda>p. None)"
    and absent: "map_of (files w)
        ''data/downloads/movie_7/movie_7_poster_high_20240101_120000.jpg'' = None"
  shows "download_media_file example_lib d w ''http://x/img.jpg'' 7 ''poster'' ''high'' False =
    (\<lparr>success = True, url = ''http://x/img.jpg'', movie_id = 7, file_type = ''poster'',
      local_path = Some ''data/downloads/movie_7/20240101_120000_movie_7_poster.jpg'',
      filename = Some ''20240101_120000_movie_7_poster.jpg'', file_size = 50,
      file_hash = Some ''5c9597f3c8245907ea71a89d9d39d08e'',
      mime_type = Some ''image/jpeg'', error = None\<rparr>,
     d\<lparr>proxy_manager := None,
       download_stats := (download_stats d)
         \<lparr>successful_downloads := successful_downloads (download_stats d) + 1,
          total_bytes := total_bytes (download_stats d) + 50,
          total_downloads := total_downloads (download_stats d) + 1\<rparr>\<rparr>,
     w\<lparr>requests := requests w + 1, clock_reads := clock_reads w + 2,
       files := (''data/downloads/movie_7/20240101_120000_movie_7_poster.jpg'',
                  replicate 50 (CHR ''x'')) # files w,
       trace := trace w @ [HttpGet ''http://x/img.jpg'' None, ReadBody,
                 WriteFile ''data/downloads/movie_7/20240101_120000_movie_7_poster.jpg'']\<rparr>)"
  unfolding download_media_file_def download_body_def
  by (simp add: example_url_valid generate_filename_def example_extension read_clock_def
        check_existing_file_def movie_dir_def str_int_7 example_lib_fields absent
        download_file_data_def upt_0_3 attempt_download_def small_image_def truthy_def py_int_50
        save_downloaded_media_def generate_safe_filename_def is_alnum_def emit_def
        Let_def d w)

lemma first_call_eq:
  "first_call =
    (\<lparr>success = True, url = ''http://x/img.jpg'', movie_id = 7, file_type = ''poster'',
      local_path = Some ''data/downloads/movie_7/20240101_120000_movie_7_poster.jpg'',
      filename = Some ''20240101_120000_movie_7_poster.jpg'', file_size = 50,
      file_hash = Some ''5c9597f3c8245907ea71a89d9d39d08e'',
      mime_type = Some ''image/jpeg'', error = None\<rparr>,
     (new_media_downloader None)\<lparr>download_stats :=
        \<lparr>total_downloads = 1, successful_downloads = 1, failed_downloads = 0, total_bytes = 50\<rparr>\<rparr>,
     serving_world\<lparr>requests := 1, clock_reads := 2,
       files := [(''data/downloads/movie_7/20240101_120000_movie_7_poster.jpg'',
                  replicate 50 (CHR ''x''))],
       trace := [HttpGet ''http://x/img.jpg'' None, ReadBody,
                 WriteFile ''data/downloads/movie_7/20240101_120000_movie_7_poster.jpg'']\<rparr>)"
  unfolding first_call_def
  by (subst download_media_file_fetches)
     (simp_all add: new_media_downloader_def serving_world_def)

lemma second_call_eq:
  "second_call =
    (\<lparr>success = True, url = ''http://x/img.jpg'', movie_id = 7, file_type = ''poster'',
      local_path = Some ''data/downloads/movie_7/20240101_120000_movie_7_poster.jpg'',
      filename = Some ''20240101_120000_movie_7_poster.jpg'', file_size = 50,
      file_hash = Some ''5c9597f3c8245907ea71a89d9d39d08e'',
      mime_type = Some ''image/jpeg'', error = None\<rparr>,
     (new_media_downloader None)\<lparr>download_stats :=
        \<lparr>total_downloads = 2, successful_downloads = 2, failed_downloads = 0, total_bytes = 100\<rparr>\<rparr>,
     serving_world\<lparr>requests := 2, clock_reads := 4,
       files := [(''data/downloads/movie_7/20240101_120000_movie_7_poster.jpg'',
                  replicate 50 (CHR ''x'')),
                 (''data/downloads/movie_7/20240101_120000_movie_7_poster.jpg'',
                  replicate 50 (CHR ''x''))],
       trace := [HttpGet ''http://x/img.jpg'' None, ReadBody,
                 WriteFile ''data/downloads/movie_7/20240101_120000_movie_7_poster.jpg'',
                 HttpGet ''http://x/img.jpg'' None, ReadBody,
                 WriteFile ''data/downloads/movie_7/20240101_120000_movie_7_poster.jpg'']\<rparr>)"
proof -
  let ?d1 = "(new_media_downloader None)\<lparr>download_stats :=
        \<lparr>total_downloads = 1, successful_downloads = 1, failed_downloads = 0, total_bytes = 50\<rparr>\<rparr>"
  let ?w1 = "serving_world\<lparr>requests := 1, clock_reads := 2,
       files := [(''data/downloads/movie_7/20240101_120000_movie_7_poster.jpg'',
                  replicate 50 (CHR ''x''))],
       trace := [HttpGet ''http://x/img.jpg'' None, ReadBody,
                 WriteFile ''data/downloads/movie_7/20240101_120000_movie_7_poster.jpg'']\<rparr>"
  have "second_call =
     download_media_file example_lib ?d1 ?w1 ''http://x/img.jpg'' 7 ''poster'' ''high'' False"
    by (simp add: second_call_def first_call_eq)
  also have "\<dots> = (\<lparr>success = True, url = ''http://x/img.jpg'', movie_id = 7, file_type = ''poster'',
      local_path = Some ''data/downloads/movie_7/20240101_120000_movie_7_poster.jpg'',
      filename = Some ''20240101_120000_movie_7_poster.jpg'', file_size = 50,
      file_hash = Some ''5c9597f3c8245907ea71a89d9d39d08e'',
      mime_type = Some ''image/jpeg'', error = None\<rparr>,
     ?d1\<lparr>proxy_manager := None,
       download_stats := (download_stats ?d1)
         \<lparr>successful_downloads := successful_downloads (download_stats ?d1) + 1,
          total_bytes := total_bytes (download_stats ?d1) + 50,
          total_downloads := total_downloads (download_stats ?d1) + 1\<rparr>\<rparr>,
     ?w1\<lparr>requests := requests ?w1 + 1, clock_reads := clock_reads ?w1 + 2,
       files := (''data/downloads/movie_7/20240101_120000_movie_7_poster.jpg'',
                  replicate 50 (CHR ''x'')) # files ?w1,
       trace := trace ?w1 @ [HttpGet ''http://x/img.jpg'' None, ReadBody,
                 WriteFile ''data/downloads/movie_7/20240101_120000_movie_7_poster.jpg'']\<rparr>)"
    by (rule download_media_file_fetches)
       (simp_all add: new_media_downloader_def serving_world_def)
  also have "\<dots> = (\<lparr>success = True, url = ''http://x/img.jpg'', movie_id = 7, file_type = ''poster'',
      local_path = Some ''data/downloads/movie_7/20240101_120000_movie_7_poster.jpg'',
      filename = Some ''20240101_120000_movie_7_poster.jpg'', file_size = 50,
      file_hash = Some ''5c9597f3c8245907ea71a89d9d39d08e'',
      mime_type = Some ''image/jpeg'', error = None\<rparr>,
     (new_media_downloader None)\<lparr>download_stats :=
        \<lparr>total_downloads = 2, successful_downloads = 2, failed_downloads = 0, total_bytes = 100\<rparr>\<rparr>,
     serving_world\<lparr>requests := 2, clock_reads := 4,
       files := [(''data/downloads/movie_7/20240101_120000_movie_7_poster.jpg'',
                  replicate 50 (CHR ''x'')),
                 (''data/downloads/movie_7/20240101_120000_movie_7_poster.jpg'',
                  replicate 50 (CHR ''x''))],
       trace := [HttpGet ''http://x/img.jpg'' None, ReadBody,
                 WriteFile ''data/downloads/movie_7/20240101_120000_movie_7_poster.jpg'',
                 HttpGet ''http://x/img.jpg'' None, ReadBody,
                 WriteFile ''data/downloads/movie_7/20240101_120000_movie_7_poster.jpg'']\<rparr>)"
    by (simp add: new_media_downloader_def serving_world_def)
  finally show ?thesis .
qed

text \<open>
  Claim C1 at its failing input. The first call downloads the image and the storage
  service saves it as \<^verbatim>\<open>20240101_120000_movie_7_poster.jpg\<close>. The second call, with the
  same arguments, \<^verbatim>\<open>force_download=False\<close> and even the same clock reading, looks for
  \<^verbatim>\<open>movie_7_poster_high_20240101_120000.jpg\<close>, does not find it and issues a second
  request: the existing-file check does not recognise the file the first call wrote.
\<close>

theorem download_media_file_fetches_again:
  "success (fst first_call) \<and>
   local_path (fst first_call) = Some ''data/downloads/movie_7/20240101_120000_movie_7_poster.jpg'' \<and>
   files (snd (snd first_call)) =
     [(''data/downloads/movie_7/20240101_120000_movie_7_poster.jpg'', replicate 50 (CHR ''x''))] \<and>
   requests (snd (snd first_call)) = 1 \<and>
   success (fst second_call) \<and>
   requests (snd (snd second_call)) = 2 \<and>
   filter is_http_get (trace (snd (snd second_call))) =
     [HttpGet ''http://x/img.jpg'' None, HttpGet ''http://x/img.jpg'' None]"
  by (simp add: first_call_eq second_call_eq)

lemma download_media_file_oversized:
  assumes d: "proxy_manager d = None" "max_file_size d = 104857600" "retry_attempts d = 3"
    and w: "net w = (\<lambda>n. Response (small_image\<lparr>resp_content_length := Some ''104857601''\<rparr>))"
      "clock w = (\<lambda>n. ''20240101_120000'')"
    and absent: "map_of (files w)
        ''data/downloads/movie_7/movie_7_poster_high_20240101_120000.jpg'' = None"
  shows "download_media_file example_lib d w ''http://x/img.jpg'' 7 ''poster'' ''high'' False =
    (\<lparr>success = False, url = ''http://x/img.jpg'', movie_id = 7, file_type = ''poster'',
      local_path = None, filename = None, file_size = 0, file_hash = None, mime_type = None,
      error = Some ''File too large: 104857601 bytes''\<rparr>,
     d\<lparr>proxy_manager := None,
       download_stats := (download_stats d)
         \<lparr>failed_downloads := failed_downloads (download_stats d) + 1,
          total_downloads := total_downloads (download_stats d) + 1\<rparr>\<rparr>,
     w\<lparr>requests := requests w + 3, clock_reads := clock_reads w + 1,
       trace := trace w @ [HttpGet ''http://x/img.jpg'' None, Sleep 1,
                           HttpGet ''http://x/img.jpg'' None, Sleep 2,
                           HttpGet ''http://x/img.jpg'' None]\<rparr>)"
  unfolding download_media_file_def download_body_def
  by (simp add: example_url_valid generate_filename_def example_extension read_clock_def
        check_existing_file_def movie_dir_def str_int_7 example_lib_fields absent
        download_file_data_def upt_0_3 attempt_download_def small_image_def truthy_def
        py_int_oversized str_int_oversized fail_current_proxy_def emit_def Let_def d w)

text \<open>
  Claim C4 at its failing input. Every response declares a \<^verbatim>\<open>Content-Length\<close> of
  104857601 bytes, above the default \<^verbatim>\<open>max_file_size\<close>. The call returns a failure
  with the error filled in and never reads a body, but the \<^verbatim>\<open>ValueError\<close> is caught
  by the retry handler: three requests are issued, with sleeps of 1 and 2 seconds
  between them.
\<close>

theorem download_media_file_oversized_retried:
  "success (fst oversized_call) = False \<and>
   error (fst oversized_call) = Some ''File too large: 104857601 bytes'' \<and>
   requests (snd (snd oversized_call)) = 3 \<and>
   trace (snd (snd oversized_call)) =
     [HttpGet ''http://x/img.jpg'' None, Sleep 1, HttpGet ''http://x/img.jpg'' None, Sleep 2,
      HttpGet ''http://x/img.jpg'' None]"
proof -
  have eq: "oversized_call =
    (\<lparr>success = False, url = ''http://x/img.jpg'', movie_id = 7, file_type = ''poster'',
      local_path = None, filename = None, file_size = 0, file_hash = None, mime_type = None,
      error = Some ''File too large: 104857601 bytes''\<rparr>,
     (new_media_downloader None)\<lparr>proxy_manager := None,
       download_stats := (download_stats (new_media_downloader None))
         \<lparr>failed_downloads := failed_downloads (download_stats (new_media_downloader None)) + 1,
          total_downloads := total_downloads (download_stats (new_media_downloader None)) + 1\<rparr>\<rparr>,
     oversized_world\<lparr>requests := requests oversized_world + 3,
       clock_reads := clock_reads oversized_world + 1,
       trace := trace oversized_world @ [HttpGet ''http://x/img.jpg'' None, Sleep 1,
                           HttpGet ''http://x/img.jpg'' None, Sleep 2,
                           HttpGet ''http://x/img.jpg'' None]\<rparr>)"
    unfolding oversized_call_def
    by (rule download_media_file_oversized)
       (simp_all add: new_media_downloader_def oversized_world_def serving_world_def)
  show ?thesis unfolding eq by (simp add: oversized_world_def serving_world_def)
qed

subsection \<open>MediaDownloader: a batch keeps the order of its requests\<close>












end
